theory Spec2Isabelle
  imports Complex_Main "HOL-Library.Char_ord" "HOL-Library.List_Lexorder"
begin

section \<open>The recommendation engine of recommender.py\<close>

text \<open>
  The engine keeps its data in four CSV files and one flag. A pandas \<open>DataFrame\<close> is
  modelled as the ordered list of its labelled rows, a \<open>Series\<close> as the list of its values.
  Python floats are idealised as reals: rounding is not part of the model, and of the
  overflows only the one that raises (a Python float power) is. Every exception the source
  can raise is a value of \<open>error\<close>; a call that raises returns \<open>Inl\<close> and leaves the engine
  as it was.

  Student and course numbers are Python strings in the database, in the admissions and in
  the lines of the known-ratings file. The label of a row of a frame is a string or, once an
  index column has been read back from a CSV file, possibly an integer: see \<open>infer_index\<close>.
\<close>

subsection \<open>Errors, labels, rows and frames\<close>

datatype error =
    AssertionError string
  | AttributeError
  | KeyError string
  | TypeError
  | ValueError
  | ZeroDivisionError
  | FileNotFoundError
  | OverflowError

datatype label = Str_label string | Int_label int

type_synonym row = "real list"

text \<open>A frame is a \<open>DataFrame\<close> with a label index: one labelled row per index entry, in index order.\<close>

type_synonym frame = "(label \<times> row) list"

text \<open>
  \<open>frame.loc[key]\<close>, where the key is a Python string, as it is at every lookup of the
  source: the row whose label is that string, \<open>KeyError\<close> when the index does not have it.
  An integer label is never equal to a string.
\<close>

definition loc :: "(label \<times> 'a) list \<Rightarrow> string \<Rightarrow> error + 'a" where
  "loc df key = (case map_of df (Str_label key) of None \<Rightarrow> Inl (KeyError key) | Some r \<Rightarrow> Inr r)"

text \<open>\<open>frame.loc[key] = r\<close> on a key the index has: the row is replaced where it stands.\<close>

fun loc_set :: "(label \<times> 'a) list \<Rightarrow> string \<Rightarrow> 'a \<Rightarrow> (label \<times> 'a) list" where
  "loc_set [] key r = []"
| "loc_set ((k, v) # df) key r =
     (if k = Str_label key then (k, r) # df else (k, v) # loc_set df key r)"

text \<open>\<open>np.dot\<close> of two series, and the series arithmetic of the update step.\<close>

definition dot :: "row \<Rightarrow> row \<Rightarrow> real" where
  "dot q p = sum_list (map2 (*) q p)"

definition scale :: "real \<Rightarrow> row \<Rightarrow> row" where
  "scale c v = map ((*) c) v"

definition series_sub :: "row \<Rightarrow> row \<Rightarrow> row" where
  "series_sub u v = map2 (-) u v"

definition series_add :: "row \<Rightarrow> row \<Rightarrow> row" where
  "series_add u v = map2 (+) u v"

subsection \<open>Stochastic gradient descent (train_model, lines 141 to 187)\<close>

text \<open>A line of the known-ratings file: student number, course number, rating.\<close>

type_synonym line = "string \<times> string \<times> real"

text \<open>
  The body of the inner loop, lines 144 to 164. Both updates are computed before either row
  is rebound, and both rows are written back afterwards.
\<close>

definition sgd_step :: "real \<Rightarrow> real \<Rightarrow> frame \<Rightarrow> frame \<Rightarrow> line \<Rightarrow> error + (frame \<times> frame)" where
  "sgd_step learning_rate regularization_parameter Q P kr =
     (case kr of (student_number, course_number, rating) \<Rightarrow>
        (case loc Q course_number of
           Inl e \<Rightarrow> Inl e
         | Inr q \<Rightarrow>
            (case loc P student_number of
               Inl e \<Rightarrow> Inl e
             | Inr p \<Rightarrow>
                (let epsilon = 2 * (rating - dot q p);
                     q_update = scale learning_rate
                       (series_sub (scale epsilon p) (scale (2 * regularization_parameter) q));
                     p_update = scale learning_rate
                       (series_sub (scale epsilon q) (scale (2 * regularization_parameter) p));
                     q' = series_add q q_update;
                     p' = series_add p p_update
                 in Inr (loc_set Q course_number q', loc_set P student_number p')))))"

text \<open>The inner loop over the lines of the file, in file order (line 143).\<close>

fun sgd_epoch :: "real \<Rightarrow> real \<Rightarrow> frame \<Rightarrow> frame \<Rightarrow> line list \<Rightarrow> error + (frame \<times> frame)" where
  "sgd_epoch lr reg Q P [] = Inr (Q, P)"
| "sgd_epoch lr reg Q P (kr # krs) =
     (case sgd_step lr reg Q P kr of
        Inl e \<Rightarrow> Inl e
      | Inr (Q', P') \<Rightarrow> sgd_epoch lr reg Q' P' krs)"

text \<open>
  The second loop over the file (lines 170 to 179), adding each squared residual to \<open>E\<close>.
  The residual is a numpy float, whose power does not raise.
\<close>

fun residual_loop :: "frame \<Rightarrow> frame \<Rightarrow> real \<Rightarrow> line list \<Rightarrow> error + real" where
  "residual_loop Q P E [] = Inr E"
| "residual_loop Q P E ((student_number, course_number, rating) # krs) =
     (case loc Q course_number of
        Inl e \<Rightarrow> Inl e
      | Inr q \<Rightarrow>
         (case loc P student_number of
            Inl e \<Rightarrow> Inl e
          | Inr p \<Rightarrow> residual_loop Q P (E + (rating - dot q p) ^ 2) krs))"

text \<open>
  The largest finite double. Iterating over a series yields Python floats, and \<open>term ** 2\<close>
  on a Python float raises \<open>OverflowError\<close> when the square is beyond it.
\<close>

definition float_max :: real where
  "float_max = 2 ^ 1024 - 2 ^ 971"

definition float_pow2 :: "real \<Rightarrow> error + real" where
  "float_pow2 term = (if term ^ 2 > float_max then Inl OverflowError else Inr (term ^ 2))"

text \<open>A list comprehension or an \<open>apply\<close> over a function that may raise: the first error ends it.\<close>

fun map_raising :: "('a \<Rightarrow> error + 'b) \<Rightarrow> 'a list \<Rightarrow> error + 'b list" where
  "map_raising f [] = Inr []"
| "map_raising f (x # xs) =
     (case f x of
        Inl e \<Rightarrow> Inl e
      | Inr y \<Rightarrow>
         (case map_raising f xs of
            Inl e \<Rightarrow> Inl e
          | Inr ys \<Rightarrow> Inr (y # ys)))"

text \<open>\<open>lambda row: sum([term ** 2 for term in row])\<close>.\<close>

definition sum_of_squares :: "real list \<Rightarrow> error + real" where
  "sum_of_squares column =
     (case map_raising float_pow2 column of
        Inl e \<Rightarrow> Inl e
      | Inr squares \<Rightarrow> Inr (sum_list squares))"

text \<open>
  \<open>sum(frame.apply(lambda row: sum([term ** 2 for term in row])))\<close>: \<open>apply\<close> runs the
  function on every column of the frame (its default axis), and the outer \<open>sum\<close> adds the
  per-column results.
\<close>

definition apply_sum_squares :: "frame \<Rightarrow> error + real" where
  "apply_sum_squares df =
     (case map_raising sum_of_squares (transpose (map snd df)) of
        Inl e \<Rightarrow> Inl e
      | Inr totals \<Rightarrow> Inr (sum_list totals))"

text \<open>One epoch's error, lines 167 to 183.\<close>

definition epoch_error :: "real \<Rightarrow> frame \<Rightarrow> frame \<Rightarrow> line list \<Rightarrow> error + real" where
  "epoch_error reg Q P krs =
     (case residual_loop Q P 0 krs of
        Inl e \<Rightarrow> Inl e
      | Inr E \<Rightarrow>
         (case apply_sum_squares Q of
            Inl e \<Rightarrow> Inl e
          | Inr sq \<Rightarrow>
             (case apply_sum_squares P of
                Inl e \<Rightarrow> Inl e
              | Inr sp \<Rightarrow> Inr (E + reg * sq + reg * sp))))"

text \<open>The outer loop \<open>for epoch in range(epochs)\<close>, with the list \<open>errors\<close> it appends to.\<close>

fun epoch_loop ::
  "nat \<Rightarrow> real \<Rightarrow> real \<Rightarrow> frame \<Rightarrow> frame \<Rightarrow> real list \<Rightarrow> line list \<Rightarrow> error + (frame \<times> frame \<times> real list)" where
  "epoch_loop 0 lr reg Q P errors krs = Inr (Q, P, errors)"
| "epoch_loop (Suc n) lr reg Q P errors krs =
     (case sgd_epoch lr reg Q P krs of
        Inl e \<Rightarrow> Inl e
      | Inr (Q', P') \<Rightarrow>
         (case epoch_error reg Q' P' krs of
            Inl e \<Rightarrow> Inl e
          | Inr E \<Rightarrow> epoch_loop n lr reg Q' P' (errors @ [E]) krs))"

subsection \<open>Writing and reading CSV files\<close>

text \<open>
  \<open>DataFrame.to_csv(path, index=True)\<close> writes every label as text: a string as it is, an
  integer in decimal.
\<close>

definition digit_char :: "nat \<Rightarrow> char" where
  "digit_char n = ''0123456789'' ! n"

fun show_nat :: "nat \<Rightarrow> string" where
  "show_nat n = (if n < 10 then [digit_char n] else show_nat (n div 10) @ [digit_char (n mod 10)])"

declare show_nat.simps [simp del]

definition show_int :: "int \<Rightarrow> string" where
  "show_int n = (if n < 0 then CHR ''-'' # show_nat (nat (- n)) else show_nat (nat n))"

fun label_text :: "label \<Rightarrow> string" where
  "label_text (Str_label s) = s"
| "label_text (Int_label n) = show_int n"

text \<open>A frame as a CSV file holds it: the text of each label, and the row.\<close>

type_synonym csv_frame = "(string \<times> row) list"

definition to_csv :: "frame \<Rightarrow> csv_frame" where
  "to_csv df = map (\<lambda>(l, r). (label_text l, r)) df"

text \<open>
  \<open>pd.read_csv(path, index_col=...)\<close> is called without a \<open>dtype\<close>, so the reader chooses the
  type of the index column from its text: when every label of the column is a sequence of
  decimal digits, the index is an integer index (\<open>'007'\<close> becomes 7); otherwise the labels
  stay strings. The header, and with it the column labels of the student-course matrix, is
  always kept as strings. Student and course numbers are taken to be made of letters and
  digits (columns of at most 10 characters); what the reader does with other spellings
  (signs, decimal points, missing-value markers) is not modelled.
\<close>

definition is_digit :: "char \<Rightarrow> bool" where
  "is_digit c \<longleftrightarrow> c \<in> set ''0123456789''"

definition integer_literal :: "string \<Rightarrow> bool" where
  "integer_literal s \<longleftrightarrow> s \<noteq> [] \<and> list_all is_digit s"

definition digit_value :: "char \<Rightarrow> int" where
  "digit_value c = int (of_char c) - 48"

definition parse_int :: "string \<Rightarrow> int" where
  "parse_int s = foldl (\<lambda>n c. 10 * n + digit_value c) 0 s"

definition infer_index :: "string list \<Rightarrow> label list" where
  "infer_index labels =
     (if list_all integer_literal labels then map (\<lambda>s. Int_label (parse_int s)) labels
      else map Str_label labels)"

definition typed_frame :: "csv_frame \<Rightarrow> frame" where
  "typed_frame t = zip (infer_index (map fst t)) (map snd t)"

text \<open>
  What \<open>pd.read_csv\<close> finds at a path: no file (\<open>FileNotFoundError\<close>), a file without
  columns (\<open>EmptyDataError\<close>, which the three properties turn into \<open>None\<close>), or a table,
  which it returns with its index column typed.
\<close>

datatype 'a csv_file = No_file | Empty_file | Csv 'a

fun read_csv :: "('a \<Rightarrow> 'b) \<Rightarrow> 'a csv_file \<Rightarrow> error + 'b option" where
  "read_csv typed No_file = Inl FileNotFoundError"
| "read_csv typed Empty_file = Inr None"
| "read_csv typed (Csv t) = Inr (Some (typed t))"

subsection \<open>The files of the engine\<close>

text \<open>
  The student-course matrix as its file holds it: row labels (student numbers), column
  labels (course numbers) and the cells, \<open>None\<close> for NaN.
\<close>

record matrix =
  mat_index :: "string list"
  mat_columns :: "string list"
  mat_values :: "real option list list"

text \<open>The student-course matrix as a \<open>DataFrame\<close> read from the file.\<close>

record student_course_frame =
  scf_index :: "label list"
  scf_columns :: "string list"
  scf_values :: "real option list list"

definition typed_matrix :: "matrix \<Rightarrow> student_course_frame" where
  "typed_matrix m =
     \<lparr> scf_index = infer_index (mat_index m), scf_columns = mat_columns m,
       scf_values = mat_values m \<rparr>"

record recommendation_system =
  student_course_matrix_file :: "matrix csv_file"
  known_ratings_file :: "line list"
  model_parameters_file_Q :: "csv_frame csv_file"
  model_parameters_file_P :: "csv_frame csv_file"
  trained :: bool

definition student_course_matrix :: "recommendation_system \<Rightarrow> error + student_course_frame option" where
  "student_course_matrix self = read_csv typed_matrix (student_course_matrix_file self)"

definition parameters :: "recommendation_system \<Rightarrow> error + (frame \<times> frame) option" where
  "parameters self =
     (case read_csv typed_frame (model_parameters_file_Q self) of
        Inl e \<Rightarrow> Inl e
      | Inr None \<Rightarrow> Inr None
      | Inr (Some Q) \<Rightarrow>
         (case read_csv typed_frame (model_parameters_file_P self) of
            Inl e \<Rightarrow> Inl e
          | Inr None \<Rightarrow> Inr None
          | Inr (Some P) \<Rightarrow> Inr (Some (Q, P))))"

subsection \<open>reload_ratings\<close>

record admission =
  adm_student_number :: string
  course_rating :: "int option"

record course =
  course_number :: string
  admissions :: "admission list"

text \<open>\<open>self.university.courses\<close>, each course with its admissions.\<close>

type_synonym university = "course list"

text \<open>The rows of \<open>long_df\<close>: student number, course number, rating (NaN when unrated).\<close>

type_synonym long_row = "string \<times> string \<times> real option"

definition collect_admissions :: "university \<Rightarrow> long_row list" where
  "collect_admissions courses =
     concat (map (\<lambda>c. map (\<lambda>a. (adm_student_number a, course_number c,
                                   map_option real_of_int (course_rating a))) (admissions c)) courses)"

text \<open>
  \<open>DataFrame.pivot\<close>: the labels of both axes are the sorted distinct values of their
  columns (strings here, written to the file as they are); a pair of labels that occurs in
  two rows cannot be reshaped and raises \<open>ValueError\<close>.
\<close>

definition pivot_cell :: "long_row list \<Rightarrow> string \<Rightarrow> string \<Rightarrow> real option" where
  "pivot_cell rows s c =
     (case map_of (map (\<lambda>(s', c', r). ((s', c'), r)) rows) (s, c) of
        None \<Rightarrow> None
      | Some r \<Rightarrow> r)"

definition pivot :: "long_row list \<Rightarrow> error + matrix" where
  "pivot rows =
     (if \<not> distinct (map (\<lambda>(s, c, r). (s, c)) rows) then Inl ValueError
      else
        (let idx = sort (remdups (map fst rows));
             cols = sort (remdups (map (\<lambda>(s, c, r). c) rows))
         in Inr \<lparr> mat_index = idx, mat_columns = cols,
                  mat_values = map (\<lambda>s. map (pivot_cell rows s) cols) idx \<rparr>))"

text \<open>\<open>DataFrame.dropna\<close>: the rows without NaN, in their order.\<close>

fun dropna :: "long_row list \<Rightarrow> line list" where
  "dropna [] = []"
| "dropna ((s, c, None) # rows) = dropna rows"
| "dropna ((s, c, Some r) # rows) = (s, c, r) # dropna rows"

definition reload_ratings :: "university \<Rightarrow> recommendation_system \<Rightarrow> error + recommendation_system" where
  "reload_ratings courses self =
     (let long_df = collect_admissions courses in
      case pivot long_df of
        Inl e \<Rightarrow> Inl e
      | Inr scm \<Rightarrow>
          Inr (self \<lparr> student_course_matrix_file := Csv scm,
                      known_ratings_file := dropna long_df \<rparr>))"

subsection \<open>train_model\<close>

text \<open>
  \<open>np.random.uniform(low, high)\<close> is \<open>low + (high - low) * u\<close> for a sample \<open>u\<close> of the
  generator in \<open>[0, 1)\<close>. The generator is an input of the model: the sample for row \<open>i\<close>,
  column \<open>j\<close> is the fractional part of \<open>draw i j\<close>, so that every function \<open>draw\<close> stands for
  a run of the generator.
\<close>

definition uniform :: "real \<Rightarrow> real \<Rightarrow> real \<Rightarrow> real" where
  "uniform low high u = low + (high - low) * frac u"

text \<open>\<open>pd.DataFrame(np.random.uniform(low=0.0, high=init_high, size=(n, k)), index=labels)\<close>.\<close>

definition random_frame :: "(nat \<Rightarrow> nat \<Rightarrow> real) \<Rightarrow> real \<Rightarrow> label list \<Rightarrow> nat \<Rightarrow> frame" where
  "random_frame draw init_high labels k =
     map (\<lambda>i. (labels ! i, map (\<lambda>j. uniform 0 init_high (draw i j)) [0..<k])) [0..<length labels]"

text \<open>
  The arguments are those of the source, with the generator's runs for the two matrices as
  \<open>draw_Q\<close> and \<open>draw_P\<close>, and \<open>thread_errors\<close> left at its default \<open>None\<close>.
  \<open>10 / number_factors\<close> raises on 0, and a negative size is refused by numpy. \<open>Q\<close> is
  indexed by the columns of the student-course matrix and \<open>P\<close> by its index, as read from
  the file. The matrices and the flag are written only after the last epoch.
\<close>

definition train_model ::
  "real \<Rightarrow> int \<Rightarrow> real \<Rightarrow> int \<Rightarrow> (nat \<Rightarrow> nat \<Rightarrow> real) \<Rightarrow> (nat \<Rightarrow> nat \<Rightarrow> real) \<Rightarrow>
   recommendation_system \<Rightarrow> error + (recommendation_system \<times> real list)" where
  "train_model regularization_parameter epochs learning_rate number_factors draw_Q draw_P self =
     (case student_course_matrix self of
        Inl e \<Rightarrow> Inl e
      | Inr None \<Rightarrow> Inl AttributeError
      | Inr (Some scm) \<Rightarrow>
          if number_factors = 0 then Inl ZeroDivisionError
          else if number_factors < 0 then Inl ValueError
          else
            (let init_high = sqrt (10 / real_of_int number_factors);
                 Q = random_frame draw_Q init_high (map Str_label (scf_columns scm))
                       (nat number_factors);
                 P = random_frame draw_P init_high (scf_index scm) (nat number_factors)
             in case epoch_loop (nat epochs) learning_rate regularization_parameter Q P []
                       (known_ratings_file self) of
                  Inl e \<Rightarrow> Inl e
                | Inr (Q', P', errors) \<Rightarrow>
                    Inr (self \<lparr> model_parameters_file_Q := Csv (to_csv Q'),
                                model_parameters_file_P := Csv (to_csv P'),
                                trained := True \<rparr>, errors)))"

subsection \<open>Recommendations and their ratings\<close>

text \<open>Dates are day numbers, as \<open>date.toordinal\<close> gives them.\<close>

type_synonym date = int

text \<open>
  The clock as the code sees it: \<open>today\<close> is what \<open>date.today()\<close> returns when it is
  called now; \<open>date_generated_default\<close> is the default value of the parameter
  \<open>date_generated\<close> of \<open>Recommendation.__init__\<close>, the value \<open>date.today()\<close> had when the
  \<open>def\<close> statement was executed, that is when the module was imported.
\<close>

record environment =
  today :: date
  date_generated_default :: date

datatype Ratings = HELPFUL | NOT_HELPFUL

record recommendation_rating =
  rr_rating :: Ratings
  date_added :: date

record recommendation =
  rec_student :: string
  rec_course :: "course option"
  correctness_probability :: real
  date_generated :: date
  rating :: "recommendation_rating option"

text \<open>\<open>RecommendationRating.__init__\<close> reads the clock in its body.\<close>

definition RecommendationRating_init :: "environment \<Rightarrow> Ratings \<Rightarrow> recommendation_rating" where
  "RecommendationRating_init env v = \<lparr> rr_rating = v, date_added = today env \<rparr>"

text \<open>
  \<open>Recommendation.__init__\<close>; an argument that the caller leaves out is \<open>None\<close> here and
  takes the default of the signature. The relationship \<open>rating\<close> is not assigned and so
  starts as \<open>None\<close>.
\<close>

definition Recommendation_init ::
  "environment \<Rightarrow> string \<Rightarrow> course option \<Rightarrow> real option \<Rightarrow> date option \<Rightarrow> recommendation" where
  "Recommendation_init env student crs prob_arg date_arg =
     \<lparr> rec_student = student,
       rec_course = crs,
       correctness_probability = (case prob_arg of None \<Rightarrow> 1 / 2 | Some p \<Rightarrow> p),
       date_generated = (case date_arg of None \<Rightarrow> date_generated_default env | Some d \<Rightarrow> d),
       rating = None \<rparr>"

text \<open>The argument \<open>rating_value\<close> of \<open>add_rating\<close> can be any Python value.\<close>

datatype py_value = Ratings_value Ratings | Str_value string | None_value

definition add_rating :: "environment \<Rightarrow> py_value \<Rightarrow> recommendation \<Rightarrow> error + recommendation" where
  "add_rating env rating_value self =
     (case rating_value of
        Ratings_value v \<Rightarrow> Inr (self \<lparr> rating := Some (RecommendationRating_init env v) \<rparr>)
      | _ \<Rightarrow> Inl (AssertionError ''Please use a valid rating''))"

subsection \<open>generate_recommendations\<close>

record student =
  student_number :: string
  enrollments :: "string list"

text \<open>\<open>University.find_course\<close>: the first course with the number, or \<open>None\<close>.\<close>

definition find_course :: "university \<Rightarrow> string \<Rightarrow> course option" where
  "find_course courses number = find (\<lambda>c. course_number c = number) courses"

text \<open>\<open>series.loc[keys]\<close> with a list of string keys: every key must be a label of the index.\<close>

fun loc_list :: "(label \<times> 'a) list \<Rightarrow> string list \<Rightarrow> error + (string \<times> 'a) list" where
  "loc_list sr [] = Inr []"
| "loc_list sr (key # keys) =
     (case loc sr key of
        Inl e \<Rightarrow> Inl e
      | Inr v \<Rightarrow>
         (case loc_list sr keys of
            Inl e \<Rightarrow> Inl e
          | Inr rest \<Rightarrow> Inr ((key, v) # rest)))"

text \<open>
  \<open>sort_values(ascending=False)\<close>: by value, largest first. Entries of equal value keep
  their order here; no property below depends on the order among equal values.
\<close>

definition sort_values_descending :: "(string \<times> real) list \<Rightarrow> (string \<times> real) list" where
  "sort_values_descending sr = sort_key (\<lambda>(label, v). - v) sr"

text \<open>
  Lines 212 to 227 of \<open>generate_recommendations\<close>: the two assertions, the courses the
  student is not enrolled in, the cap on the number, and the series \<open>predicted_ratings\<close>
  after \<open>.loc\<close>, \<open>.sort_values\<close> and \<open>.head\<close>.
\<close>

definition predicted_ratings ::
  "recommendation_system \<Rightarrow> student \<Rightarrow> int \<Rightarrow> error + (string \<times> real) list" where
  "predicted_ratings self stud number_recommendations =
     (if \<not> (1 \<le> number_recommendations \<and> number_recommendations < 4) then
        Inl (AssertionError ''The number of generated recommendations must be within [1, 3]'')
      else if \<not> trained self then
        Inl (AssertionError ''Please train the model at least once before generating a recommendation'')
      else
        (case student_course_matrix self of
           Inl e \<Rightarrow> Inl e
         | Inr None \<Rightarrow> Inl AttributeError
         | Inr (Some scm) \<Rightarrow>
            (let courses = scf_columns scm;
                 enrolled_in_courses = enrollments stud;
                 not_enrolled_in_courses =
                   filter (\<lambda>number. number \<notin> set enrolled_in_courses) courses;
                 number_recommendations' =
                   min number_recommendations (int (length not_enrolled_in_courses))
             in case parameters self of
                  Inl e \<Rightarrow> Inl e
                | Inr None \<Rightarrow> Inl TypeError
                | Inr (Some (Q, P)) \<Rightarrow>
                   (case loc P (student_number stud) of
                      Inl e \<Rightarrow> Inl e
                    | Inr p \<Rightarrow>
                       (case loc_list (map (\<lambda>(label, q). (label, dot q p)) Q)
                               not_enrolled_in_courses of
                          Inl e \<Rightarrow> Inl e
                        | Inr selected \<Rightarrow>
                            Inr (take (nat number_recommendations')
                                   (sort_values_descending selected)))))))"

text \<open>Lines 229 to 233: one \<open>Recommendation\<close> per entry of the series, in its order.\<close>

definition generate_recommendations ::
  "environment \<Rightarrow> university \<Rightarrow> recommendation_system \<Rightarrow> student \<Rightarrow> int \<Rightarrow>
   error + recommendation list" where
  "generate_recommendations env uni self stud number_recommendations =
     (case predicted_ratings self stud number_recommendations of
        Inl e \<Rightarrow> Inl e
      | Inr ratings \<Rightarrow>
          Inr (map (\<lambda>(number, r).
                      Recommendation_init env (student_number stud) (find_course uni number)
                        (Some (r / 20)) None)
                   ratings))"

subsection \<open>The error formula and the matrices after an epoch, as the specification words them\<close>

definition squared_norm :: "row \<Rightarrow> real" where
  "squared_norm v = sum_list (map (\<lambda>x. x ^ 2) v)"

text \<open>The row of a student or course number, for numbers the frame has as labels.\<close>

definition row_of :: "frame \<Rightarrow> string \<Rightarrow> row" where
  "row_of df key = (case map_of df (Str_label key) of None \<Rightarrow> [] | Some r \<Rightarrow> r)"

text \<open>
  The sum of the squared residuals over the known ratings, plus the regularisation
  coefficient times the squared norm of every row of \<open>Q\<close>, plus the same for \<open>P\<close>.
\<close>

definition spec_epoch_error :: "real \<Rightarrow> frame \<Rightarrow> frame \<Rightarrow> line list \<Rightarrow> real" where
  "spec_epoch_error reg Q P krs =
     (\<Sum>(m, i, r)\<leftarrow>krs. (r - dot (row_of Q i) (row_of P m)) ^ 2)
     + reg * (\<Sum>(i, q)\<leftarrow>Q. squared_norm q)
     + reg * (\<Sum>(m, p)\<leftarrow>P. squared_norm p)"

text \<open>The matrices after the updates of the first \<open>n\<close> epochs.\<close>

fun after_epochs ::
  "nat \<Rightarrow> real \<Rightarrow> real \<Rightarrow> frame \<Rightarrow> frame \<Rightarrow> line list \<Rightarrow> error + (frame \<times> frame)" where
  "after_epochs 0 lr reg Q P krs = Inr (Q, P)"
| "after_epochs (Suc n) lr reg Q P krs =
     (case sgd_epoch lr reg Q P krs of
        Inl e \<Rightarrow> Inl e
      | Inr (Q', P') \<Rightarrow> after_epochs n lr reg Q' P' krs)"

subsection \<open>Sample data\<close>

definition sample_university :: university where
  "sample_university =
     [\<lparr> course_number = ''c1'',
        admissions = [\<lparr> adm_student_number = ''nr1'', course_rating = Some 9 \<rparr>] \<rparr>,
      \<lparr> course_number = ''c2'', admissions = [] \<rparr>]"

definition sample_matrix :: matrix where
  "sample_matrix = \<lparr> mat_index = [''nr1''], mat_columns = [''c1'', ''c2''],
               mat_values = [[Some 9, None]] \<rparr>"

definition sample_system :: recommendation_system where
  "sample_system =
     \<lparr> student_course_matrix_file =
         Csv \<lparr> mat_index = [''nr1''], mat_columns = [''c1'', ''c2''],
               mat_values = [[Some 9, None]] \<rparr>,
       known_ratings_file = [(''nr1'', ''c1'', 9)],
       model_parameters_file_Q = Csv [(''c1'', [1, 2]), (''c2'', [3, 1])],
       model_parameters_file_P = Csv [(''nr1'', [2, 1])],
       trained = True \<rparr>"

definition sample_environment :: environment where
  "sample_environment = \<lparr> today = 737850, date_generated_default = 737468 \<rparr>"

text \<open>A run of the generator in which every sample is one tenth.\<close>

definition tenth_draw :: "nat \<Rightarrow> nat \<Rightarrow> real" where
  "tenth_draw i j = 1 / 10"

text \<open>One student enrolled in two courses, no course rated yet, the model not trained.\<close>

definition unrated_system :: recommendation_system where
  "unrated_system =
     \<lparr> student_course_matrix_file =
         Csv \<lparr> mat_index = [''nr1''], mat_columns = [''c1'', ''c2''],
               mat_values = [[None, None]] \<rparr>,
       known_ratings_file = [],
       model_parameters_file_Q = No_file,
       model_parameters_file_P = No_file,
       trained = False \<rparr>"

text \<open>One student admitted twice to the same course (two start dates).\<close>

definition enrolled_twice :: university where
  "enrolled_twice =
     [\<lparr> course_number = ''c1'',
        admissions = [\<lparr> adm_student_number = ''nr1'', course_rating = Some 7 \<rparr>,
                      \<lparr> adm_student_number = ''nr1'', course_rating = Some 9 \<rparr>] \<rparr>]"

text \<open>Students whose numbers are made of digits only.\<close>

definition numeric_students :: university where
  "numeric_students =
     [\<lparr> course_number = ''c1'',
        admissions = [\<lparr> adm_student_number = ''123'', course_rating = Some 9 \<rparr>,
                      \<lparr> adm_student_number = ''007'', course_rating = None \<rparr>] \<rparr>]"

definition numeric_students_system :: recommendation_system where
  "numeric_students_system =
     \<lparr> student_course_matrix_file =
         Csv \<lparr> mat_index = [''007'', ''123''], mat_columns = [''c1''],
               mat_values = [[None], [Some 9]] \<rparr>,
       known_ratings_file = [(''123'', ''c1'', 9)],
       model_parameters_file_Q = No_file,
       model_parameters_file_P = No_file,
       trained = False \<rparr>"

text \<open>
  Courses whose numbers are made of digits only, one student in each, none rated yet; and
  the engine after a reload of them.
\<close>

definition numeric_courses :: university where
  "numeric_courses =
     [\<lparr> course_number = ''101'',
        admissions = [\<lparr> adm_student_number = ''nr1'', course_rating = None \<rparr>] \<rparr>,
      \<lparr> course_number = ''20'',
        admissions = [\<lparr> adm_student_number = ''nr2'', course_rating = None \<rparr>] \<rparr>]"

definition numeric_courses_system :: recommendation_system where
  "numeric_courses_system =
     \<lparr> student_course_matrix_file =
         Csv \<lparr> mat_index = [''nr1'', ''nr2''], mat_columns = [''101'', ''20''],
               mat_values = [[None, None], [None, None]] \<rparr>,
       known_ratings_file = [],
       model_parameters_file_Q = No_file,
       model_parameters_file_P = No_file,
       trained = False \<rparr>"

definition first_student :: student where
  "first_student = \<lparr> student_number = ''nr1'', enrollments = [''c1''] \<rparr>"



definition one_course :: student where
  "one_course = \<lparr> student_number = ''nr1'', enrollments = [''101''] \<rparr>"

text \<open>The engine after a training run on the numeric course numbers, two epochs, one factor.\<close>

definition numeric_courses_trained :: recommendation_system where
  "numeric_courses_trained =
     \<lparr> student_course_matrix_file =
         Csv \<lparr> mat_index = [''nr1'', ''nr2''], mat_columns = [''101'', ''20''],
               mat_values = [[None, None], [None, None]] \<rparr>,
       known_ratings_file = [],
       model_parameters_file_Q = Csv [(''101'', [sqrt 10 / 10]), (''20'', [sqrt 10 / 10])],
       model_parameters_file_P = Csv [(''nr1'', [sqrt 10 / 10]), (''nr2'', [sqrt 10 / 10])],
       trained = True \<rparr>"

text \<open>
  A learning rate far too large, and the entry that the first update leaves in the row of
  course c1 and of student nr1 when every initial value is \<open>sqrt 10 / 10\<close>, the rating is 9
  and the regularisation parameter is one tenth.
\<close>

definition huge_rate :: real where
  "huge_rate = 10 ^ 200"

definition first_update :: "real \<Rightarrow> real" where
  "first_update lr = sqrt 10 / 10 * (1 + lr * (88 / 5))"

section \<open>Properties\<close>

subsection \<open>Label lookups\<close>

lemma loc_Inr_iff: "loc df key = Inr r \<longleftrightarrow> map_of df (Str_label key) = Some r"
  by (simp add: loc_def split: option.splits)

lemma loc_Inl_iff:
  "loc df key = Inl e \<longleftrightarrow> Str_label key \<notin> fst ` set df \<and> e = KeyError key"
proof (cases "map_of df (Str_label key)")
  case None
  moreover from None have "Str_label key \<notin> fst ` set df" by (simp add: map_of_eq_None_iff)
  ultimately show ?thesis by (auto simp: loc_def)
next
  case (Some r)
  then have "Str_label key \<in> fst ` set df" by (metis map_of_eq_None_iff option.distinct(1))
  with Some show ?thesis by (simp add: loc_def)
qed

lemma loc_present: "Str_label key \<in> fst ` set df \<Longrightarrow> \<exists>r. loc df key = Inr r"
  by (cases "loc df key") (auto simp: loc_Inl_iff)

lemma loc_Inr_present: "loc df key = Inr r \<Longrightarrow> Str_label key \<in> fst ` set df"
  by (metis loc_Inr_iff map_of_eq_None_iff option.distinct(1))

lemma keys_loc_set: "map fst (loc_set df key r) = map fst df"
  by (induction df) auto

lemma map_of_loc_set_same:
  "Str_label key \<in> fst ` set df \<Longrightarrow> map_of (loc_set df key r) (Str_label key) = Some r"
proof (induction df)
  case Nil
  then show ?case by simp
next
  case (Cons a df)
  obtain k v where a: "a = (k, v)" by (cases a)
  show ?case
  proof (cases "k = Str_label key")
    case True
    then show ?thesis by (simp add: a)
  next
    case False
    with Cons.prems a have "Str_label key \<in> fst ` set df" by auto
    with Cons.IH False show ?thesis by (simp add: a)
  qed
qed

lemma map_of_loc_set_other:
  "j \<noteq> Str_label key \<Longrightarrow> map_of (loc_set df key r) j = map_of df j"
  by (induction df) auto

lemma loc_loc_set_same: "Str_label key \<in> fst ` set df \<Longrightarrow> loc (loc_set df key r) key = Inr r"
  by (simp add: loc_def map_of_loc_set_same)

lemma loc_loc_set_other: "j \<noteq> key \<Longrightarrow> loc (loc_set df key r) j = loc df j"
  by (simp add: loc_def map_of_loc_set_other)

subsection \<open>One update step and the steps after it\<close>

lemma sgd_step_Inr:
  assumes "loc Q i = Inr q" and "loc P m = Inr p"
  shows "sgd_step lr reg Q P (m, i, r) =
     Inr (loc_set Q i (series_add q (scale lr
            (series_sub (scale (2 * (r - dot q p)) p) (scale (2 * reg) q)))),
          loc_set P m (series_add p (scale lr
            (series_sub (scale (2 * (r - dot q p)) q) (scale (2 * reg) p)))))"
  using assms by (simp add: sgd_step_def Let_def)

lemma update_length:
  "length u = length v \<Longrightarrow>
   length (series_add u (scale lr (series_sub (scale c v) (scale d u)))) = length u"
  by (simp add: series_add_def scale_def series_sub_def)

lemma update_nth:
  assumes "length u = length v" and "k < length u"
  shows "series_add u (scale lr (series_sub (scale c v) (scale d u))) ! k
         = u ! k + lr * (c * v ! k - d * u ! k)"
  using assms by (simp add: series_add_def scale_def series_sub_def)

text \<open>The step on its own: what it returns and what the two matrices hold afterwards.\<close>

lemma sgd_step_rows:
  assumes "loc Q i = Inr q" and "loc P m = Inr p" and "length q = length p"
  shows "\<exists>Q' P' q' p'.
           sgd_step lr reg Q P (m, i, r) = Inr (Q', P')
         \<and> loc Q' i = Inr q' \<and> loc P' m = Inr p'
         \<and> length q' = length q \<and> length p' = length p
         \<and> (\<forall>k<length q. q' ! k = q ! k + lr * (2 * (r - dot q p) * p ! k - 2 * reg * q ! k))
         \<and> (\<forall>k<length p. p' ! k = p ! k + lr * (2 * (r - dot q p) * q ! k - 2 * reg * p ! k))
         \<and> (\<forall>j. j \<noteq> i \<longrightarrow> loc Q' j = loc Q j)
         \<and> (\<forall>j. j \<noteq> m \<longrightarrow> loc P' j = loc P j)"
proof -
  let ?q' = "series_add q (scale lr
               (series_sub (scale (2 * (r - dot q p)) p) (scale (2 * reg) q)))"
  let ?p' = "series_add p (scale lr
               (series_sub (scale (2 * (r - dot q p)) q) (scale (2 * reg) p)))"
  let ?Q' = "loc_set Q i ?q'" and ?P' = "loc_set P m ?p'"
  have step: "sgd_step lr reg Q P (m, i, r) = Inr (?Q', ?P')"
    using assms(1,2) by (rule sgd_step_Inr)
  have iQ: "Str_label i \<in> fst ` set Q" and mP: "Str_label m \<in> fst ` set P"
    using assms(1,2) by (auto dest: loc_Inr_present)
  have "loc ?Q' i = Inr ?q'" using iQ by (rule loc_loc_set_same)
  moreover have "loc ?P' m = Inr ?p'" using mP by (rule loc_loc_set_same)
  moreover have "length ?q' = length q" using assms(3) by (rule update_length)
  moreover have "length ?p' = length p" using assms(3) by (simp add: update_length)
  moreover have "\<forall>k<length q. ?q' ! k = q ! k + lr * (2 * (r - dot q p) * p ! k - 2 * reg * q ! k)"
    using assms(3) by (simp add: update_nth)
  moreover have "\<forall>k<length p. ?p' ! k = p ! k + lr * (2 * (r - dot q p) * q ! k - 2 * reg * p ! k)"
    using assms(3) by (simp add: update_nth)
  moreover have "\<forall>j. j \<noteq> i \<longrightarrow> loc ?Q' j = loc Q j" by (simp add: loc_loc_set_other)
  moreover have "\<forall>j. j \<noteq> m \<longrightarrow> loc ?P' j = loc P j" by (simp add: loc_loc_set_other)
  ultimately show ?thesis using step by blast
qed

text \<open>The loop over the lines is the steps one after the other.\<close>

lemma sgd_epoch_append:
  "sgd_epoch lr reg Q P (krs @ krs') =
     (case sgd_epoch lr reg Q P krs of
        Inl e \<Rightarrow> Inl e
      | Inr (Q', P') \<Rightarrow> sgd_epoch lr reg Q' P' krs')"
proof (induction krs arbitrary: Q P)
  case Nil
  show ?case by simp
next
  case (Cons kr krs)
  show ?case
  proof (cases "sgd_step lr reg Q P kr")
    case (Inl e)
    then show ?thesis by simp
  next
    case (Inr QP)
    obtain Q1 P1 where "QP = (Q1, P1)" by (cases QP)
    with Inr Cons.IH [of Q1 P1] show ?thesis by simp
  qed
qed


text \<open>
  C1. When a known rating \<open>(m, i, r)\<close> is processed on matrices that hold a row \<open>q\<close> for
  item \<open>i\<close> and a row \<open>p\<close> for member \<open>m\<close> (both with the same number of factors), the step
  succeeds and both new rows are computed from the snapshot \<open>q\<close>, \<open>p\<close> taken before the step:
  with \<open>\<epsilon> = 2 (r - q \<cdot> p)\<close>, every component of the new row of \<open>Q\<close> is
  \<open>q\<^sub>k + \<eta> (\<epsilon> p\<^sub>k - 2 \<lambda> q\<^sub>k)\<close> and every component of the new row of \<open>P\<close> is
  \<open>p\<^sub>k + \<eta> (\<epsilon> q\<^sub>k - 2 \<lambda> p\<^sub>k)\<close>. The two rows are stored under their labels and the other
  rows are untouched. The epoch goes on with the updated matrices: an epoch of this one
  rating returns them, and when a second rating \<open>(m2, i2, r2)\<close> follows, its step reads its
  rows \<open>q2\<close>, \<open>p2\<close> from the updated matrices (so the rows just written, when it is about
  the same item or member) and computes its own update from them by the same formulas; a
  row that the updated matrices lack makes the epoch raise.
\<close>

theorem sgd_step_snapshot:
  assumes "loc Q i = Inr q" and "loc P m = Inr p" and "length q = length p"
  shows "\<exists>Q' P' q' p'.
           sgd_step lr reg Q P (m, i, r) = Inr (Q', P')
         \<and> loc Q' i = Inr q' \<and> loc P' m = Inr p'
         \<and> length q' = length q \<and> length p' = length p
         \<and> (\<forall>k<length q. q' ! k = q ! k + lr * (2 * (r - dot q p) * p ! k - 2 * reg * q ! k))
         \<and> (\<forall>k<length p. p' ! k = p ! k + lr * (2 * (r - dot q p) * q ! k - 2 * reg * p ! k))
         \<and> (\<forall>j. j \<noteq> i \<longrightarrow> loc Q' j = loc Q j)
         \<and> (\<forall>j. j \<noteq> m \<longrightarrow> loc P' j = loc P j)
         \<and> (\<forall>rest. sgd_epoch lr reg Q P ((m, i, r) # rest) = sgd_epoch lr reg Q' P' rest)
         \<and> sgd_epoch lr reg Q P [(m, i, r)] = Inr (Q', P')
         \<and> sgd_epoch lr reg Q' P' [] = Inr (Q', P')
         \<and> (\<forall>m2 i2 r2 q2 p2.
               loc Q' i2 = Inr q2 \<and> loc P' m2 = Inr p2 \<and> length q2 = length p2 \<longrightarrow>
               (\<exists>Q'' P'' q'' p''.
                   sgd_epoch lr reg Q P [(m, i, r), (m2, i2, r2)] = Inr (Q'', P'')
                 \<and> loc Q'' i2 = Inr q'' \<and> loc P'' m2 = Inr p''
                 \<and> (\<forall>k<length q2.
                       q'' ! k = q2 ! k + lr * (2 * (r2 - dot q2 p2) * p2 ! k - 2 * reg * q2 ! k))
                 \<and> (\<forall>k<length p2.
                       p'' ! k = p2 ! k + lr * (2 * (r2 - dot q2 p2) * q2 ! k - 2 * reg * p2 ! k))))
         \<and> (\<forall>m2 i2 r2 e rest.
               (loc Q' i2 = Inl e \<or> (\<exists>q2. loc Q' i2 = Inr q2) \<and> loc P' m2 = Inl e) \<longrightarrow>
               sgd_epoch lr reg Q P ((m, i, r) # (m2, i2, r2) # rest) = Inl e)"
proof -
  from sgd_step_rows [OF assms, where lr = lr and r = r and reg = reg] obtain Q' P' q' p' where
    step: "sgd_step lr reg Q P (m, i, r) = Inr (Q', P')"
    and rows: "loc Q' i = Inr q'" "loc P' m = Inr p'"
      "length q' = length q" "length p' = length p"
      "\<forall>k<length q. q' ! k = q ! k + lr * (2 * (r - dot q p) * p ! k - 2 * reg * q ! k)"
      "\<forall>k<length p. p' ! k = p ! k + lr * (2 * (r - dot q p) * q ! k - 2 * reg * p ! k)"
      "\<forall>j. j \<noteq> i \<longrightarrow> loc Q' j = loc Q j"
      "\<forall>j. j \<noteq> m \<longrightarrow> loc P' j = loc P j"
    by blast
  have rest: "\<forall>rest. sgd_epoch lr reg Q P ((m, i, r) # rest) = sgd_epoch lr reg Q' P' rest"
    by (simp add: step)
  have one: "sgd_epoch lr reg Q P [(m, i, r)] = Inr (Q', P')"
    by (simp add: step)
  have none: "sgd_epoch lr reg Q' P' [] = Inr (Q', P')"
    by simp
  have two: "\<forall>m2 i2 r2 q2 p2.
               loc Q' i2 = Inr q2 \<and> loc P' m2 = Inr p2 \<and> length q2 = length p2 \<longrightarrow>
               (\<exists>Q'' P'' q'' p''.
                   sgd_epoch lr reg Q P [(m, i, r), (m2, i2, r2)] = Inr (Q'', P'')
                 \<and> loc Q'' i2 = Inr q'' \<and> loc P'' m2 = Inr p''
                 \<and> (\<forall>k<length q2.
                       q'' ! k = q2 ! k + lr * (2 * (r2 - dot q2 p2) * p2 ! k - 2 * reg * q2 ! k))
                 \<and> (\<forall>k<length p2.
                       p'' ! k = p2 ! k + lr * (2 * (r2 - dot q2 p2) * q2 ! k - 2 * reg * p2 ! k)))"
  proof (intro allI impI)
    fix m2 i2 r2 q2 p2
    assume h: "loc Q' i2 = Inr q2 \<and> loc P' m2 = Inr p2 \<and> length q2 = length p2"
    then have h1: "loc Q' i2 = Inr q2" and h2: "loc P' m2 = Inr p2" and h3: "length q2 = length p2"
      by simp_all
    from sgd_step_rows [OF h1 h2 h3, where lr = lr and r = r2 and reg = reg] obtain Q'' P'' q'' p'' where
      step2: "sgd_step lr reg Q' P' (m2, i2, r2) = Inr (Q'', P'')"
      and rows2: "loc Q'' i2 = Inr q''" "loc P'' m2 = Inr p''"
        "\<forall>k<length q2. q'' ! k = q2 ! k + lr * (2 * (r2 - dot q2 p2) * p2 ! k - 2 * reg * q2 ! k)"
        "\<forall>k<length p2. p'' ! k = p2 ! k + lr * (2 * (r2 - dot q2 p2) * q2 ! k - 2 * reg * p2 ! k)"
      by blast
    have "sgd_epoch lr reg Q P [(m, i, r), (m2, i2, r2)] = Inr (Q'', P'')"
      by (simp add: step step2)
    from this rows2 show "\<exists>Q'' P'' q'' p''.
                   sgd_epoch lr reg Q P [(m, i, r), (m2, i2, r2)] = Inr (Q'', P'')
                 \<and> loc Q'' i2 = Inr q'' \<and> loc P'' m2 = Inr p''
                 \<and> (\<forall>k<length q2.
                       q'' ! k = q2 ! k + lr * (2 * (r2 - dot q2 p2) * p2 ! k - 2 * reg * q2 ! k))
                 \<and> (\<forall>k<length p2.
                       p'' ! k = p2 ! k + lr * (2 * (r2 - dot q2 p2) * q2 ! k - 2 * reg * p2 ! k))"
      by blast
  qed
  have fails: "\<forall>m2 i2 r2 e rest.
               (loc Q' i2 = Inl e \<or> (\<exists>q2. loc Q' i2 = Inr q2) \<and> loc P' m2 = Inl e) \<longrightarrow>
               sgd_epoch lr reg Q P ((m, i, r) # (m2, i2, r2) # rest) = Inl e"
  proof (intro allI impI)
    fix m2 i2 r2 e rest
    assume "loc Q' i2 = Inl e \<or> (\<exists>q2. loc Q' i2 = Inr q2) \<and> loc P' m2 = Inl e"
    then have "sgd_step lr reg Q' P' (m2, i2, r2) = Inl e"
      by (auto simp: sgd_step_def)
    then show "sgd_epoch lr reg Q P ((m, i, r) # (m2, i2, r2) # rest) = Inl e"
      by (simp add: step)
  qed
  show ?thesis
    by (rule exI [of _ Q'], rule exI [of _ P'], rule exI [of _ q'], rule exI [of _ p'])
      (intro conjI step rows rest one none two fails)
qed

theorem sgd_step_snapshot_witness:
  "loc [(Str_label ''c1'', [1, 2 :: real]), (Str_label ''c2'', [3, 1])] ''c1'' = Inr [1, 2 ::
      real]
   \<and> loc [(Str_label ''nr1'', [2, 1 :: real])] ''nr1'' = Inr [2, 1 :: real]
   \<and> length [1, 2 :: real] = length [2, 1 :: real]
   \<and> (\<exists>Q' P' q' p'.
           sgd_step (3 / 200) (1 / 10) [(Str_label ''c1'', [1, 2 :: real]), (Str_label ''c2'',
               [3, 1])] [(Str_label ''nr1'', [2, 1 :: real])] (''nr1'', ''c1'', 9) = Inr (Q',
               P')
         \<and> loc Q' ''c1'' = Inr q' \<and> loc P' ''nr1'' = Inr p'
         \<and> length q' = length [1, 2 :: real] \<and> length p' = length [2, 1 :: real]
         \<and> (\<forall>k<length [1, 2 :: real]. q' ! k = [1, 2 :: real] ! k + (3 / 200) * (2
             * (9 - dot [1, 2 :: real] [2, 1 :: real]) * [2, 1 :: real] ! k - 2 * (1 / 10) *
             [1, 2 :: real] ! k))
         \<and> (\<forall>k<length [2, 1 :: real]. p' ! k = [2, 1 :: real] ! k + (3 / 200) * (2
             * (9 - dot [1, 2 :: real] [2, 1 :: real]) * [1, 2 :: real] ! k - 2 * (1 / 10) *
             [2, 1 :: real] ! k))
         \<and> (\<forall>j. j \<noteq> ''c1'' \<longrightarrow> loc Q' j = loc [(Str_label
             ''c1'', [1, 2 :: real]), (Str_label ''c2'', [3, 1])] j)
         \<and> (\<forall>j. j \<noteq> ''nr1'' \<longrightarrow> loc P' j = loc [(Str_label
             ''nr1'', [2, 1 :: real])] j)
         \<and> (\<forall>rest. sgd_epoch (3 / 200) (1 / 10) [(Str_label ''c1'', [1, 2 ::
             real]), (Str_label ''c2'', [3, 1])] [(Str_label ''nr1'', [2, 1 :: real])]
             ((''nr1'', ''c1'', 9) # rest) = sgd_epoch (3 / 200) (1 / 10) Q' P' rest)
         \<and> sgd_epoch (3 / 200) (1 / 10) [(Str_label ''c1'', [1, 2 :: real]), (Str_label
             ''c2'', [3, 1])] [(Str_label ''nr1'', [2, 1 :: real])] [(''nr1'', ''c1'', 9)] =
             Inr (Q', P')
         \<and> sgd_epoch (3 / 200) (1 / 10) Q' P' [] = Inr (Q', P')
         \<and> (\<forall>m2 i2 r2 q2 p2.
               loc Q' i2 = Inr q2 \<and> loc P' m2 = Inr p2 \<and> length q2 = length p2
                   \<longrightarrow>
               (\<exists>Q'' P'' q'' p''.
                   sgd_epoch (3 / 200) (1 / 10) [(Str_label ''c1'', [1, 2 :: real]), (Str_label
                       ''c2'', [3, 1])] [(Str_label ''nr1'', [2, 1 :: real])] [(''nr1'',
                       ''c1'', 9), (m2, i2, r2)] = Inr (Q'', P'')
                 \<and> loc Q'' i2 = Inr q'' \<and> loc P'' m2 = Inr p''
                 \<and> (\<forall>k<length q2.
                       q'' ! k = q2 ! k + (3 / 200) * (2 * (r2 - dot q2 p2) * p2 ! k - 2 * (1 /
                           10) * q2 ! k))
                 \<and> (\<forall>k<length p2.
                       p'' ! k = p2 ! k + (3 / 200) * (2 * (r2 - dot q2 p2) * q2 ! k - 2 * (1 /
                           10) * p2 ! k))))
         \<and> (\<forall>m2 i2 r2 e rest.
               (loc Q' i2 = Inl e \<or> (\<exists>q2. loc Q' i2 = Inr q2) \<and> loc P' m2 =
                   Inl e) \<longrightarrow>
               sgd_epoch (3 / 200) (1 / 10) [(Str_label ''c1'', [1, 2 :: real]), (Str_label
                   ''c2'', [3, 1])] [(Str_label ''nr1'', [2, 1 :: real])] ((''nr1'', ''c1'', 9)
                   # (m2, i2, r2) # rest) = Inl e))"
proof -
  have hq: "loc [(Str_label ''c1'', [1, 2 :: real]), (Str_label ''c2'', [3, 1])] ''c1'' = Inr
      [1, 2 :: real]"
    by (simp add: loc_def)
  have hp: "loc [(Str_label ''nr1'', [2, 1 :: real])] ''nr1'' = Inr [2, 1 :: real]"
    by (simp add: loc_def)
  have hl: "length [1, 2 :: real] = length [2, 1 :: real]"
    by simp
  note w = sgd_step_snapshot [OF hq hp hl, where lr = "3 / 200" and reg = "1 / 10" and r = 9]
  show ?thesis
    by (rule conjI [OF hq conjI [OF hp conjI [OF hl w]]])
qed

text \<open>The sample matrices after one rating, and after the same rating a second time.\<close>

lemma sgd_epoch_sample:
  "sgd_epoch (3 / 200) (1 / 10) [(Str_label ''c1'', [1, 2]), (Str_label ''c2'', [3, 1])]
     [(Str_label ''nr1'', [2, 1])] [(''nr1'', ''c1'', 9)] =
     Inr ([(Str_label ''c1'', [1297 / 1000, 268 / 125]), (Str_label ''c2'', [3, 1])],
          [(Str_label ''nr1'', [268 / 125, 1297 / 1000])])"
  "sgd_epoch (3 / 200) (1 / 10) [(Str_label ''c1'', [1, 2]), (Str_label ''c2'', [3, 1])]
     [(Str_label ''nr1'', [2, 1])] [(''nr1'', ''c1'', 9), (''nr1'', ''c1'', 9)] =
     Inr ([(Str_label ''c1'', [4732096889 / 3125000000, 1774498933 / 781250000]),
           (Str_label ''c2'', [3, 1])],
          [(Str_label ''nr1'', [1774498933 / 781250000, 4732096889 / 3125000000])])"
  by (simp_all add: sgd_step_def loc_def dot_def scale_def series_sub_def series_add_def Let_def)

subsection \<open>The regularisation term\<close>

lemma map_raising_Inr:
  "(\<And>x. x \<in> set xs \<Longrightarrow> f x = Inr (g x)) \<Longrightarrow> map_raising f xs = Inr (map g xs)"
  by (induction xs) simp_all

lemma sum_list_heads_tails:
  fixes xss :: "real list list"
  shows "sum_list (map sum_list xss) =
         sum_list [h. (h # t) \<leftarrow> xss] + sum_list (map sum_list [t. (h # t) \<leftarrow> xss])"
proof (induction xss)
  case Nil
  then show ?case by simp
next
  case (Cons xs xss)
  then show ?case by (cases xs) simp_all
qed

lemma sum_list_transpose:
  fixes xss :: "real list list"
  shows "sum_list (map sum_list (transpose xss)) = sum_list (map sum_list xss)"
proof (induction xss rule: transpose.induct)
  case 1
  then show ?case by simp
next
  case (2 xss)
  then show ?case by simp
next
  case (3 x xs xss)
  have "sum_list (map sum_list (transpose ((x # xs) # xss)))
        = x + sum_list [h. (h # t) \<leftarrow> xss] + sum_list (map sum_list (xs # [t. (h # t) \<leftarrow> xss]))"
    using 3 by simp
  also have "\<dots> = x + sum_list xs + sum_list (map sum_list xss)"
    using sum_list_heads_tails [of xss] by simp
  finally show ?case by simp
qed

lemma set_heads_tails:
  "set [h. (h # t) \<leftarrow> xss] \<union> \<Union> (set ` set [t. (h # t) \<leftarrow> xss]) = \<Union> (set ` set xss)"
proof (induction xss)
  case Nil
  then show ?case by simp
next
  case (Cons xs xss)
  define H where "H = [h. (h # t) \<leftarrow> xss]"
  define T where "T = [t. (h # t) \<leftarrow> xss]"
  from Cons.IH have ih: "set H \<union> \<Union> (set ` set T) = \<Union> (set ` set xss)"
    unfolding H_def T_def .
  show ?case
  proof (cases xs)
    case Nil
    have "[h. (h # t) \<leftarrow> xs # xss] = H" and "[t. (h # t) \<leftarrow> xs # xss] = T"
      by (simp_all add: Nil H_def T_def)
    with ih Nil show ?thesis by simp
  next
    case (Cons a list)
    have "[h. (h # t) \<leftarrow> xs # xss] = a # H" and "[t. (h # t) \<leftarrow> xs # xss] = list # T"
      by (simp_all add: Cons H_def T_def)
    then have "set [h. (h # t) \<leftarrow> xs # xss] \<union> \<Union> (set ` set [t. (h # t) \<leftarrow> xs # xss])
               = insert a (set list) \<union> (set H \<union> \<Union> (set ` set T))"
      by auto
    also have "\<dots> = insert a (set list) \<union> \<Union> (set ` set xss)"
      by (simp only: ih)
    finally show ?thesis by (simp add: Cons)
  qed
qed

lemma entries_transpose: "\<Union> (set ` set (transpose xss)) = \<Union> (set ` set xss)"
proof (induction xss rule: transpose.induct)
  case 1
  then show ?case by simp
next
  case (2 xss)
  then show ?case by simp
next
  case (3 x xs xss)
  have "\<Union> (set ` set (transpose ((x # xs) # xss)))
        = insert x (set [h. (h # t) \<leftarrow> xss]) \<union> \<Union> (set ` set (xs # [t. (h # t) \<leftarrow> xss]))"
    using 3 by simp
  also have "\<dots> = insert x (set xs) \<union> (set [h. (h # t) \<leftarrow> xss] \<union> \<Union> (set ` set [t. (h # t) \<leftarrow> xss]))"
    by auto
  also have "\<dots> = insert x (set xs) \<union> \<Union> (set ` set xss)"
    by (simp only: set_heads_tails)
  finally show ?case by simp
qed

text \<open>Without an overflow, the sum over the columns is the sum of the squared norms of the rows.\<close>

lemma apply_sum_squares_rows:
  assumes "\<And>l v x. (l, v) \<in> set df \<Longrightarrow> x \<in> set v \<Longrightarrow> x ^ 2 \<le> float_max"
  shows "apply_sum_squares df = Inr (\<Sum>(l, v)\<leftarrow>df. squared_norm v)"
proof -
  have entry: "x ^ 2 \<le> float_max" if "column \<in> set (transpose (map snd df))" and "x \<in> set column"
    for column x
  proof -
    from that have "x \<in> \<Union> (set ` set (transpose (map snd df)))" by blast
    then have "x \<in> \<Union> (set ` set (map snd df))" by (simp only: entries_transpose)
    then obtain l v where "(l, v) \<in> set df" and "x \<in> set v" by auto
    then show ?thesis by (rule assms)
  qed
  have column: "sum_of_squares column = Inr (sum_list (map (\<lambda>t. t ^ 2) column))"
    if "column \<in> set (transpose (map snd df))" for column
  proof -
    have "map_raising float_pow2 column = Inr (map (\<lambda>t. t ^ 2) column)"
    proof (rule map_raising_Inr)
      fix x assume "x \<in> set column"
      with that have "x ^ 2 \<le> float_max" by (rule entry)
      then show "float_pow2 x = Inr (x ^ 2)" by (simp add: float_pow2_def)
    qed
    then show ?thesis by (simp add: sum_of_squares_def)
  qed
  have "map_raising sum_of_squares (transpose (map snd df))
        = Inr (map (\<lambda>column. sum_list (map (\<lambda>t. t ^ 2) column)) (transpose (map snd df)))"
    by (rule map_raising_Inr) (rule column)
  then have "apply_sum_squares df
        = Inr (sum_list (map sum_list (map (map (\<lambda>t. t ^ 2)) (transpose (map snd df)))))"
    by (simp add: apply_sum_squares_def comp_def)
  also have "map (map (\<lambda>t. t ^ 2)) (transpose (map snd df))
        = transpose (map (map (\<lambda>t. t ^ 2)) (map snd df))"
    by (simp only: transpose_map_map)
  also have "sum_list (map sum_list (transpose (map (map (\<lambda>t. t ^ 2)) (map snd df))))
        = sum_list (map sum_list (map (map (\<lambda>t. t ^ 2)) (map snd df)))"
    by (rule sum_list_transpose)
  also have "\<dots> = (\<Sum>(l, v)\<leftarrow>df. squared_norm v)"
    by (simp add: comp_def squared_norm_def case_prod_unfold)
  finally show ?thesis .
qed

text \<open>The initial values lie in \<open>[0, init_high)\<close>, so their squares do not overflow.\<close>

lemma uniform_range:
  assumes "0 < high"
  shows "0 \<le> uniform 0 high u \<and> uniform 0 high u < high"
proof -
  have "0 \<le> frac u" and "frac u < 1" by (simp_all add: frac_lt_1)
  with assms show ?thesis by (simp add: uniform_def)
qed

lemma random_frame_entries:
  assumes "(l, v) \<in> set (random_frame draw high labels k)" and "x \<in> set v"
  shows "\<exists>u. x = uniform 0 high u"
  using assms by (auto simp: random_frame_def)

lemma float_max_ge_10: "10 \<le> float_max"
  by (simp add: float_max_def)

lemma random_frame_no_overflow:
  assumes "0 < number_factors"
    and "(l, v) \<in> set (random_frame draw (sqrt (10 / real_of_int number_factors)) labels k)"
    and "x \<in> set v"
  shows "x ^ 2 \<le> float_max"
proof -
  let ?high = "sqrt (10 / real_of_int number_factors)"
  from assms(1) have pos: "0 < ?high" by simp
  from assms(2,3) obtain u where x: "x = uniform 0 ?high u"
    using random_frame_entries by blast
  from uniform_range [OF pos, of u] x have "0 \<le> x" and "x < ?high" by simp_all
  then have "x ^ 2 \<le> ?high ^ 2" by (simp add: power_mono)
  also have "\<dots> = 10 / real_of_int number_factors" using assms(1) by simp
  also have "\<dots> \<le> 10"
  proof -
    from assms(1) have "1 \<le> real_of_int number_factors" by simp
    then show ?thesis by (simp add: field_simps)
  qed
  finally show ?thesis using float_max_ge_10 by simp
qed

lemma apply_sum_squares_random_frame:
  assumes "0 < number_factors"
  shows "apply_sum_squares (random_frame draw (sqrt (10 / real_of_int number_factors)) labels k)
         = Inr (\<Sum>(l, v)\<leftarrow>random_frame draw (sqrt (10 / real_of_int number_factors)) labels k.
                  squared_norm v)"
  by (rule apply_sum_squares_rows) (rule random_frame_no_overflow [OF assms])

subsection \<open>train_model without known ratings\<close>

lemma frac_tenth: "frac (1 / 10 :: real) = 1 / 10"
  by (simp add: frac_eq)

lemma random_frame_tenth_2:
  "random_frame tenth_draw (sqrt 10) [a, b] (Suc 0) = [(a, [sqrt 10 / 10]), (b, [sqrt 10 / 10])]"
  by (simp add: random_frame_def tenth_draw_def uniform_def frac_tenth upt_rec)

lemma random_frame_tenth_1:
  "random_frame tenth_draw (sqrt 10) [a] (Suc 0) = [(a, [sqrt 10 / 10])]"
  by (simp add: random_frame_def tenth_draw_def uniform_def frac_tenth upt_rec)

lemma squared_norm_tenth: "squared_norm [sqrt 10 / 10] = 1 / 10"
  by (simp add: squared_norm_def power_divide)

lemma epoch_loop_no_ratings:
  assumes "apply_sum_squares Q = Inr sq" and "apply_sum_squares P = Inr sp"
  shows "epoch_loop n lr reg Q P errors [] =
           Inr (Q, P, errors @ replicate n (reg * sq + reg * sp))"
proof (induction n arbitrary: errors)
  case 0
  then show ?case by simp
next
  case (Suc n)
  show ?case
    by (simp add: Suc assms epoch_error_def replicate_app_Cons_same)
qed

lemma infer_sample_index: "infer_index [''nr1''] = [Str_label ''nr1'']"
  by (simp add: infer_index_def integer_literal_def is_digit_def)

lemma train_model_no_ratings:
  assumes "student_course_matrix_file self = Csv scm"
    and "0 < number_factors"
    and "known_ratings_file self = []"
  shows "train_model reg epochs lr number_factors draw_Q draw_P self =
           Inr (self \<lparr> model_parameters_file_Q :=
                         Csv (to_csv (random_frame draw_Q (sqrt (10 / real_of_int number_factors))
                                        (map Str_label (mat_columns scm)) (nat number_factors))),
                       model_parameters_file_P :=
                         Csv (to_csv (random_frame draw_P (sqrt (10 / real_of_int number_factors))
                                        (infer_index (mat_index scm)) (nat number_factors))),
                       trained := True \<rparr>,
                replicate (nat epochs)
                  (reg * (\<Sum>(l, v)\<leftarrow>random_frame draw_Q (sqrt (10 / real_of_int number_factors))
                                      (map Str_label (mat_columns scm)) (nat number_factors).
                            squared_norm v)
                   + reg * (\<Sum>(l, v)\<leftarrow>random_frame draw_P (sqrt (10 / real_of_int number_factors))
                                        (infer_index (mat_index scm)) (nat number_factors).
                              squared_norm v)))"
  using assms
  by (simp add: train_model_def student_course_matrix_def typed_matrix_def Let_def
      epoch_loop_no_ratings [OF apply_sum_squares_random_frame apply_sum_squares_random_frame])

text \<open>
  C4, as the code has it. \<open>train_model\<close> has no check for an empty known-ratings file. With
  the student-course matrix on file and a positive number of factors, training on an empty
  known-ratings file succeeds: no row is updated, every epoch appends the regularisation
  term of the initial matrices to the errors, the initial matrices are written to the
  parameter files and the model is marked as trained.
\<close>

theorem train_model_empty_known_ratings:
  assumes "student_course_matrix_file self = Csv scm"
    and "0 < number_factors"
    and "known_ratings_file self = []"
  shows "train_model reg epochs lr number_factors draw_Q draw_P self =
           Inr (self \<lparr> model_parameters_file_Q :=
                         Csv (to_csv (random_frame draw_Q (sqrt (10 / real_of_int number_factors))
                                        (map Str_label (mat_columns scm)) (nat number_factors))),
                       model_parameters_file_P :=
                         Csv (to_csv (random_frame draw_P (sqrt (10 / real_of_int number_factors))
                                        (infer_index (mat_index scm)) (nat number_factors))),
                       trained := True \<rparr>,
                replicate (nat epochs)
                  (reg * (\<Sum>(l, v)\<leftarrow>random_frame draw_Q (sqrt (10 / real_of_int number_factors))
                                      (map Str_label (mat_columns scm)) (nat number_factors).
                            squared_norm v)
                   + reg * (\<Sum>(l, v)\<leftarrow>random_frame draw_P (sqrt (10 / real_of_int number_factors))
                                        (infer_index (mat_index scm)) (nat number_factors).
                              squared_norm v)))"
  using assms by (rule train_model_no_ratings)

theorem train_model_empty_known_ratings_witness:
  "student_course_matrix_file unrated_system =
       Csv \<lparr> mat_index = [''nr1''], mat_columns = [''c1'', ''c2''], mat_values = [[None, None]] \<rparr>
   \<and> (0 :: int) < 1
   \<and> known_ratings_file unrated_system = []
   \<and> train_model (1 / 10) 2 (3 / 200) 1 tenth_draw tenth_draw unrated_system =
       Inr (unrated_system
              \<lparr> model_parameters_file_Q := Csv [(''c1'', [sqrt 10 / 10]), (''c2'', [sqrt 10 / 10])],
                model_parameters_file_P := Csv [(''nr1'', [sqrt 10 / 10])],
                trained := True \<rparr>,
            [3 / 100, 3 / 100])"
proof -
  have h1: "student_course_matrix_file unrated_system =
       Csv \<lparr> mat_index = [''nr1''], mat_columns = [''c1'', ''c2''], mat_values = [[None, None]] \<rparr>"
    by (simp add: unrated_system_def)
  have h2: "(0 :: int) < 1" by simp
  have h3: "known_ratings_file unrated_system = []" by (simp add: unrated_system_def)
  show ?thesis
    using train_model_empty_known_ratings [OF h1 h2 h3, where reg = "1 / 10" and epochs = 2
        and lr = "3 / 200" and draw_Q = tenth_draw and draw_P = tenth_draw] h1 h3
    by (simp add: random_frame_tenth_2 random_frame_tenth_1 squared_norm_tenth infer_sample_index
        to_csv_def numeral_2_eq_2)
qed

text \<open>
  One student enrolled in two courses, no course rated yet: two epochs are run and the model
  is trained.
\<close>

theorem train_model_empty_counterexample:
  "known_ratings_file unrated_system = []
   \<and> train_model (1 / 10) 2 (3 / 200) 1 tenth_draw tenth_draw unrated_system =
       Inr (unrated_system
              \<lparr> model_parameters_file_Q := Csv [(''c1'', [sqrt 10 / 10]), (''c2'', [sqrt 10 / 10])],
                model_parameters_file_P := Csv [(''nr1'', [sqrt 10 / 10])],
                trained := True \<rparr>,
            [3 / 100, 3 / 100])"
proof -
  have h1: "student_course_matrix_file unrated_system =
       Csv \<lparr> mat_index = [''nr1''], mat_columns = [''c1'', ''c2''], mat_values = [[None, None]] \<rparr>"
    by (simp add: unrated_system_def)
  have h2: "(0 :: int) < 1" by simp
  have h3: "known_ratings_file unrated_system = []" by (simp add: unrated_system_def)
  show ?thesis
    using train_model_no_ratings [OF h1 h2 h3, where reg = "1 / 10" and epochs = 2
        and lr = "3 / 200" and draw_Q = tenth_draw and draw_P = tenth_draw] h3
    by (simp add: random_frame_tenth_2 random_frame_tenth_1 squared_norm_tenth infer_sample_index
        to_csv_def numeral_2_eq_2)
qed

subsection \<open>The error trace of a run that returns\<close>

lemma map_raising_Inr_values:
  assumes "map_raising f xs = Inr ys"
    and "\<And>x y. x \<in> set xs \<Longrightarrow> f x = Inr y \<Longrightarrow> y = g x"
  shows "ys = map g xs"
  using assms
proof (induction xs arbitrary: ys)
  case Nil
  then show ?case by simp
next
  case (Cons x xs)
  from Cons.prems(1) obtain y ys' where fx: "f x = Inr y"
    and rest: "map_raising f xs = Inr ys'" and ys: "ys = y # ys'"
    by (auto split: sum.splits)
  from Cons.prems(2) [of x y] fx have "y = g x" by simp
  moreover from Cons.IH [OF rest] Cons.prems(2) have "ys' = map g xs" by simp
  ultimately show ?case using ys by simp
qed

lemma apply_sum_squares_value:
  assumes "apply_sum_squares df = Inr s"
  shows "s = (\<Sum>(l, v)\<leftarrow>df. squared_norm v)"
proof -
  from assms obtain totals where
    totals: "map_raising sum_of_squares (transpose (map snd df)) = Inr totals"
    and s: "s = sum_list totals"
    by (auto simp: apply_sum_squares_def split: sum.splits)
  have column: "y = sum_list (map (\<lambda>t. t ^ 2) column)" if "sum_of_squares column = Inr y"
    for column y
  proof -
    from that obtain squares where sq: "map_raising float_pow2 column = Inr squares"
      and y: "y = sum_list squares"
      by (auto simp: sum_of_squares_def split: sum.splits)
    have "squares = map (\<lambda>t. t ^ 2) column"
      using sq by (rule map_raising_Inr_values) (auto simp: float_pow2_def split: if_splits)
    with y show ?thesis by simp
  qed
  have "totals = map (\<lambda>column. sum_list (map (\<lambda>t. t ^ 2) column)) (transpose (map snd df))"
    using totals by (rule map_raising_Inr_values) (rule column)
  with s have "s = sum_list (map sum_list (map (map (\<lambda>t. t ^ 2)) (transpose (map snd df))))"
    by (simp add: comp_def)
  also have "map (map (\<lambda>t. t ^ 2)) (transpose (map snd df))
        = transpose (map (map (\<lambda>t. t ^ 2)) (map snd df))"
    by (simp only: transpose_map_map)
  also have "sum_list (map sum_list (transpose (map (map (\<lambda>t. t ^ 2)) (map snd df))))
        = sum_list (map sum_list (map (map (\<lambda>t. t ^ 2)) (map snd df)))"
    by (rule sum_list_transpose)
  also have "\<dots> = (\<Sum>(l, v)\<leftarrow>df. squared_norm v)"
    by (simp add: comp_def squared_norm_def case_prod_unfold)
  finally show ?thesis .
qed

lemma residual_loop_value:
  assumes "residual_loop Q P E krs = Inr E'"
  shows "E' = E + (\<Sum>(m, i, r)\<leftarrow>krs. (r - dot (row_of Q i) (row_of P m)) ^ 2)"
  using assms
proof (induction krs arbitrary: E)
  case Nil
  then show ?case by simp
next
  case (Cons kr krs)
  obtain m i r where kr: "kr = (m, i, r)" by (cases kr)
  from Cons.prems kr obtain q p where q: "loc Q i = Inr q" and p: "loc P m = Inr p"
    and rest: "residual_loop Q P (E + (r - dot q p) ^ 2) krs = Inr E'"
    by (auto split: sum.splits)
  from q p have "row_of Q i = q" and "row_of P m = p"
    by (simp_all add: row_of_def loc_Inr_iff)
  with Cons.IH [OF rest] kr show ?case by simp
qed

lemma epoch_error_value:
  assumes "epoch_error reg Q P krs = Inr E"
  shows "E = spec_epoch_error reg Q P krs"
proof -
  from assms obtain E0 where r: "residual_loop Q P 0 krs = Inr E0"
    by (cases "residual_loop Q P 0 krs") (simp_all add: epoch_error_def)
  from assms r obtain sq where q: "apply_sum_squares Q = Inr sq"
    by (cases "apply_sum_squares Q") (simp_all add: epoch_error_def)
  from assms r q obtain sp where p: "apply_sum_squares P = Inr sp"
    by (cases "apply_sum_squares P") (simp_all add: epoch_error_def)
  from assms r q p have E: "E = E0 + reg * sq + reg * sp"
    by (simp add: epoch_error_def)
  from r have "E0 = 0 + (\<Sum>(m, i, r)\<leftarrow>krs. (r - dot (row_of Q i) (row_of P m)) ^ 2)"
    by (rule residual_loop_value)
  moreover from q have "sq = (\<Sum>(l, v)\<leftarrow>Q. squared_norm v)" by (rule apply_sum_squares_value)
  moreover from p have "sp = (\<Sum>(l, v)\<leftarrow>P. squared_norm v)" by (rule apply_sum_squares_value)
  ultimately show ?thesis
    unfolding E spec_epoch_error_def by simp
qed

lemma epoch_loop_value:
  assumes "epoch_loop n lr reg Q P errors krs = Inr (Q', P', errors')"
  shows "\<exists>es. errors' = errors @ es \<and> length es = n
           \<and> after_epochs n lr reg Q P krs = Inr (Q', P')
           \<and> (\<forall>e<n. \<exists>Qe Pe. after_epochs (Suc e) lr reg Q P krs = Inr (Qe, Pe)
                         \<and> es ! e = spec_epoch_error reg Qe Pe krs)"
  using assms
proof (induction n arbitrary: Q P errors)
  case 0
  then show ?case by simp
next
  case (Suc n)
  from Suc.prems obtain Q1 P1 E where ep: "sgd_epoch lr reg Q P krs = Inr (Q1, P1)"
    and err: "epoch_error reg Q1 P1 krs = Inr E"
    and loop: "epoch_loop n lr reg Q1 P1 (errors @ [E]) krs = Inr (Q', P', errors')"
    by (auto split: sum.splits)
  from err have E: "E = spec_epoch_error reg Q1 P1 krs" by (rule epoch_error_value)
  from Suc.IH [OF loop] obtain es where
    es: "errors' = (errors @ [E]) @ es" and len: "length es = n"
    and aft: "after_epochs n lr reg Q1 P1 krs = Inr (Q', P')"
    and tr: "\<forall>e<n. \<exists>Qe Pe. after_epochs (Suc e) lr reg Q1 P1 krs = Inr (Qe, Pe)
                         \<and> es ! e = spec_epoch_error reg Qe Pe krs"
    by blast
  let ?es = "E # es"
  have "errors' = errors @ ?es" using es by simp
  moreover have "length ?es = Suc n" using len by simp
  moreover have "after_epochs (Suc n) lr reg Q P krs = Inr (Q', P')"
    using ep aft by simp
  moreover have "\<forall>e<Suc n. \<exists>Qe Pe. after_epochs (Suc e) lr reg Q P krs = Inr (Qe, Pe)
                         \<and> ?es ! e = spec_epoch_error reg Qe Pe krs"
  proof (intro allI impI)
    fix e assume "e < Suc n"
    show "\<exists>Qe Pe. after_epochs (Suc e) lr reg Q P krs = Inr (Qe, Pe)
                         \<and> ?es ! e = spec_epoch_error reg Qe Pe krs"
    proof (cases e)
      case 0
      then show ?thesis using ep E by simp
    next
      case (Suc e')
      with \<open>e < Suc n\<close> have "e' < n" by simp
      with tr obtain Qe Pe where "after_epochs (Suc e') lr reg Q1 P1 krs = Inr (Qe, Pe)"
        and "es ! e' = spec_epoch_error reg Qe Pe krs" by blast
      then show ?thesis using Suc ep by simp
    qed
  qed
  ultimately show ?case by blast
qed

text \<open>
  Whenever \<open>train_model\<close> returns, its list of errors has one entry for every epoch, and
  the entry is the error formula on the matrices after the updates of that epoch.
\<close>

lemma train_model_trace:
  assumes "train_model reg epochs lr number_factors draw_Q draw_P self = Inr (self', errors)"
  shows "\<exists>scm. student_course_matrix_file self = Csv scm
         \<and> length errors = nat epochs
         \<and> (\<forall>e<nat epochs. \<exists>Qe Pe.
               after_epochs (Suc e) lr reg
                 (random_frame draw_Q (sqrt (10 / real_of_int number_factors))
                    (map Str_label (mat_columns scm)) (nat number_factors))
                 (random_frame draw_P (sqrt (10 / real_of_int number_factors))
                    (infer_index (mat_index scm)) (nat number_factors))
                 (known_ratings_file self) = Inr (Qe, Pe)
             \<and> errors ! e = spec_epoch_error reg Qe Pe (known_ratings_file self))"
proof -
  from assms obtain scm where scm: "student_course_matrix_file self = Csv scm"
    by (cases "student_course_matrix_file self")
      (auto simp: train_model_def student_course_matrix_def)
  let ?Q = "random_frame draw_Q (sqrt (10 / real_of_int number_factors))
                    (map Str_label (mat_columns scm)) (nat number_factors)"
  let ?P = "random_frame draw_P (sqrt (10 / real_of_int number_factors))
                    (infer_index (mat_index scm)) (nat number_factors)"
  from assms scm obtain Q' P' where
    "epoch_loop (nat epochs) lr reg ?Q ?P [] (known_ratings_file self) = Inr (Q', P', errors)"
    by (auto simp: train_model_def student_course_matrix_def typed_matrix_def Let_def
        split: if_splits sum.splits)
  from epoch_loop_value [OF this] scm show ?thesis by auto
qed

subsection \<open>A run that diverges\<close>

lemma first_update_overflows: "float_max < first_update huge_rate ^ 2"
proof -
  have "first_update huge_rate ^ 2 = 1 / 10 * (1 + 10 ^ 200 * (88 / 5)) ^ 2"
    by (simp add: first_update_def huge_rate_def power_mult_distrib power_divide)
  moreover have "float_max < 1 / 10 * (1 + 10 ^ 200 * (88 / 5 :: real)) ^ 2"
    by (simp add: float_max_def)
  ultimately show ?thesis by simp
qed

lemma sgd_step_first_update:
  "sgd_step lr (1 / 10)
     [(Str_label ''c1'', [sqrt 10 / 10]), (Str_label ''c2'', [sqrt 10 / 10])]
     [(Str_label ''nr1'', [sqrt 10 / 10])] (''nr1'', ''c1'', 9) =
   Inr ([(Str_label ''c1'', [first_update lr]), (Str_label ''c2'', [sqrt 10 / 10])],
        [(Str_label ''nr1'', [first_update lr])])"
proof -
  have d: "dot [sqrt 10 / 10] [sqrt 10 / 10] = 1 / 10"
    by (simp add: dot_def)
  have u: "series_add [sqrt 10 / 10] (scale lr (series_sub (scale (2 * (9 - 1 / 10)) [sqrt 10 / 10])
             (scale (2 * (1 / 10)) [sqrt 10 / 10]))) = [first_update lr]"
    by (simp add: series_add_def scale_def series_sub_def first_update_def algebra_simps)
  have q: "loc [(Str_label ''c1'', [sqrt 10 / 10]), (Str_label ''c2'', [sqrt 10 / 10])] ''c1''
             = Inr [sqrt 10 / 10]"
    and p: "loc [(Str_label ''nr1'', [sqrt 10 / 10])] ''nr1'' = Inr [sqrt 10 / 10]"
    by (simp_all add: loc_def)
  show ?thesis
    unfolding sgd_step_Inr [OF q p] d u by simp
qed

lemma apply_sum_squares_first_update:
  "apply_sum_squares [(Str_label ''c1'', [first_update huge_rate]), (Str_label ''c2'', [sqrt 10 / 10])] =
     Inl OverflowError"
  using first_update_overflows
  by (simp add: apply_sum_squares_def sum_of_squares_def float_pow2_def)

text \<open>
  A run that diverges: with a learning rate of \<open>10 ^ 200\<close> the first update leaves entries
  whose square is beyond the largest double, and the error of the first epoch raises.
\<close>

lemma train_model_overflow_sample:
  "train_model (1 / 10) 1 huge_rate 1 tenth_draw tenth_draw sample_system = Inl OverflowError"
proof -
  have res: "\<exists>E. residual_loop
        [(Str_label ''c1'', [first_update huge_rate]), (Str_label ''c2'', [sqrt 10 / 10])]
        [(Str_label ''nr1'', [first_update huge_rate])] 0 [(''nr1'', ''c1'', 9)] = Inr E"
    by (simp add: loc_def)
  have err: "epoch_error (1 / 10)
        [(Str_label ''c1'', [first_update huge_rate]), (Str_label ''c2'', [sqrt 10 / 10])]
        [(Str_label ''nr1'', [first_update huge_rate])] [(''nr1'', ''c1'', 9)] = Inl OverflowError"
    using res by (auto simp: epoch_error_def apply_sum_squares_first_update)
  have loop: "epoch_loop (Suc 0) huge_rate (1 / 10)
     [(Str_label ''c1'', [sqrt 10 / 10]), (Str_label ''c2'', [sqrt 10 / 10])]
     [(Str_label ''nr1'', [sqrt 10 / 10])] [] [(''nr1'', ''c1'', 9)] = Inl OverflowError"
    by (simp add: sgd_step_first_update err)
  have stored: "student_course_matrix_file sample_system = Csv sample_matrix"
    and known: "known_ratings_file sample_system = [(''nr1'', ''c1'', 9)]"
    by (simp_all add: sample_system_def sample_matrix_def)
  show ?thesis
    using loop
    by (simp add: train_model_def student_course_matrix_def stored known typed_matrix_def
        sample_matrix_def infer_sample_index random_frame_tenth_2 random_frame_tenth_1 Let_def)
qed

subsection \<open>train_model on labels the reader re-types\<close>

lemma train_model_establishes:
  assumes "train_model reg epochs lr number_factors draw_Q draw_P self = Inr (self', errors)"
  shows "trained self'
         \<and> (\<exists>scm Q P. student_course_matrix_file self' = Csv scm
               \<and> model_parameters_file_Q self' = Csv Q \<and> model_parameters_file_P self' = Csv P
               \<and> known_ratings_file self' = known_ratings_file self)"
proof -
  from assms obtain scm where scm: "student_course_matrix_file self = Csv scm"
    by (cases "student_course_matrix_file self")
      (auto simp: train_model_def student_course_matrix_def)
  from assms scm obtain Q' P' where
    "self' = self \<lparr> model_parameters_file_Q := Csv (to_csv Q'),
                      model_parameters_file_P := Csv (to_csv P'), trained := True \<rparr>"
    by (auto simp: train_model_def student_course_matrix_def typed_matrix_def Let_def
        split: if_splits sum.splits)
  with scm show ?thesis by simp
qed

lemma train_model_not_read:
  "student_course_matrix_file self = Empty_file \<Longrightarrow>
     train_model reg epochs lr number_factors draw_Q draw_P self = Inl AttributeError"
  by (simp add: train_model_def student_course_matrix_def)

lemma keys_random_frame: "map fst (random_frame draw high labels k) = labels"
  by (simp add: random_frame_def comp_def map_nth)

text \<open>
  The first known rating is enough: when its course is a column of the matrix and its
  student number is not a string label of the index as read, the first step raises.
\<close>

lemma train_model_first_rating_KeyError:
  assumes "student_course_matrix_file self = Csv scm"
    and "0 < number_factors" and "0 < epochs"
    and "known_ratings_file self = (m, i, r) # rest"
    and "i \<in> set (mat_columns scm)"
    and "Str_label m \<notin> set (infer_index (mat_index scm))"
  shows "train_model reg epochs lr number_factors draw_Q draw_P self = Inl (KeyError m)"
proof -
  let ?Q = "random_frame draw_Q (sqrt (10 / real_of_int number_factors))
              (map Str_label (mat_columns scm)) (nat number_factors)"
  let ?P = "random_frame draw_P (sqrt (10 / real_of_int number_factors))
              (infer_index (mat_index scm)) (nat number_factors)"
  have "Str_label i \<in> fst ` set ?Q"
    using assms(5) by (metis image_eqI keys_random_frame list.set_map)
  then obtain q where q: "loc ?Q i = Inr q" using loc_present by blast
  have "Str_label m \<notin> fst ` set ?P"
    using assms(6) by (metis keys_random_frame list.set_map)
  then have p: "loc ?P m = Inl (KeyError m)" by (simp add: loc_Inl_iff)
  have step: "sgd_step lr reg ?Q ?P (m, i, r) = Inl (KeyError m)"
    using q p by (simp add: sgd_step_def)
  from assms(3) obtain n where n: "nat epochs = Suc n"
    by (metis Suc_pred' zero_less_nat_eq)
  have "epoch_loop (nat epochs) lr reg ?Q ?P [] ((m, i, r) # rest) = Inl (KeyError m)"
    by (simp add: n step)
  then show ?thesis
    using assms(1,2,4)
    by (simp add: train_model_def student_course_matrix_def typed_matrix_def Let_def)
qed

subsection \<open>reload_ratings\<close>

lemma set_dropna: "(s, c, r) \<in> set (dropna rows) \<longleftrightarrow> (s, c, Some r) \<in> set rows"
  by (induction rows rule: dropna.induct) auto

text \<open>Reloading the ratings touches neither the flag nor the parameter files.\<close>

lemma reload_ratings_keeps_model:
  assumes "reload_ratings courses self = Inr self'"
  shows "trained self' = trained self
         \<and> model_parameters_file_Q self' = model_parameters_file_Q self
         \<and> model_parameters_file_P self' = model_parameters_file_P self"
  using assms by (auto simp: reload_ratings_def Let_def split: sum.splits)

text \<open>Every rated pair is a row and a column of the matrix that the same reload writes.\<close>

lemma reload_ratings_labels:
  assumes "reload_ratings courses self = Inr self'"
  shows "\<exists>scm. student_course_matrix_file self' = Csv scm
           \<and> (\<forall>(m, i, r)\<in>set (known_ratings_file self').
                 m \<in> set (mat_index scm) \<and> i \<in> set (mat_columns scm))"
proof -
  let ?rows = "collect_admissions courses"
  from assms obtain scm where piv: "pivot ?rows = Inr scm"
    and self': "self' = self \<lparr> student_course_matrix_file := Csv scm,
                               known_ratings_file := dropna ?rows \<rparr>"
    by (auto simp: reload_ratings_def Let_def split: sum.splits)
  from piv have idx: "set (mat_index scm) = fst ` set ?rows"
    and cols: "set (mat_columns scm) = (\<lambda>(s, c, r). c) ` set ?rows"
    by (force simp: pivot_def Let_def split: if_splits)+
  have "\<forall>(m, i, r)\<in>set (dropna ?rows). m \<in> set (mat_index scm) \<and> i \<in> set (mat_columns scm)"
    unfolding idx cols by (force simp: set_dropna)
  with self' show ?thesis by simp
qed

text \<open>
  \<open>reload_ratings\<close> succeeds exactly when no pair of a student and a course occurs in two
  admissions; without any admission both views are empty.
\<close>

lemma reload_ratings_cases:
  "(distinct (map (\<lambda>(s, c, r). (s, c)) (collect_admissions courses)) \<longrightarrow>
      reload_ratings courses self =
        Inr (self \<lparr> student_course_matrix_file :=
                      Csv \<lparr> mat_index = sort (remdups (map fst (collect_admissions courses))),
                            mat_columns =
                              sort (remdups (map (\<lambda>(s, c, r). c) (collect_admissions courses))),
                            mat_values =
                              map (\<lambda>s. map (pivot_cell (collect_admissions courses) s)
                                     (sort (remdups (map (\<lambda>(s, c, r). c) (collect_admissions courses)))))
                                (sort (remdups (map fst (collect_admissions courses)))) \<rparr>,
                    known_ratings_file := dropna (collect_admissions courses) \<rparr>))
   \<and> (\<not> distinct (map (\<lambda>(s, c, r). (s, c)) (collect_admissions courses)) \<longrightarrow>
        reload_ratings courses self = Inl ValueError)
   \<and> (collect_admissions courses = [] \<longrightarrow>
        reload_ratings courses self =
          Inr (self \<lparr> student_course_matrix_file :=
                        Csv \<lparr> mat_index = [], mat_columns = [], mat_values = [] \<rparr>,
                      known_ratings_file := [] \<rparr>))"
  by (simp add: reload_ratings_def pivot_def Let_def)

text \<open>
  C6. \<open>reload_ratings\<close> does not tolerate a duplicate pair. A student admitted twice to the
  same course (the key of an admission includes its start date, and \<open>Course.add_student\<close>
  checks nothing), with ratings 7 and 9: the pivot raises \<open>ValueError\<close> and no view is
  written, where the views were to be produced with one of the two values.
\<close>

theorem reload_ratings_duplicate_pair:
  "collect_admissions enrolled_twice = [(''nr1'', ''c1'', Some 7), (''nr1'', ''c1'', Some 9)]
   \<and> reload_ratings enrolled_twice sample_system = Inl ValueError"
  by (simp add: reload_ratings_def pivot_def collect_admissions_def enrolled_twice_def Let_def)

subsection \<open>Student numbers made of digits\<close>

lemma infer_numeric_students: "infer_index [''007'', ''123''] = [Int_label 7, Int_label 123]"
  by (simp add: infer_index_def integer_literal_def is_digit_def parse_int_def digit_value_def)

text \<open>
  C2. The trace is returned only when every student number of a known rating is a string
  label of \<open>P\<close>. The student-course matrix is read back without a \<open>dtype\<close>, so student
  numbers made of digits come back as integers, \<open>P\<close> is indexed by integers, and the first
  known rating raises \<open>KeyError\<close>: after a reload of two students 007 and 123, the second
  with one rating, training with the default arguments (40 epochs, 20 factors) returns no
  trace.
\<close>

theorem train_model_numeric_student_numbers:
  "reload_ratings numeric_students unrated_system = Inr numeric_students_system
   \<and> known_ratings_file numeric_students_system = [(''123'', ''c1'', 9)]
   \<and> student_course_matrix numeric_students_system =
       Inr (Some \<lparr> scf_index = [Int_label 7, Int_label 123], scf_columns = [''c1''],
                   scf_values = [[None], [Some 9]] \<rparr>)
   \<and> train_model (1 / 10) 40 (3 / 200) 20 tenth_draw tenth_draw numeric_students_system =
       Inl (KeyError ''123'')"
proof -
  have rows: "collect_admissions numeric_students =
                [(''123'', ''c1'', Some 9), (''007'', ''c1'', None)]"
    by (simp add: collect_admissions_def numeric_students_def)
  have reload: "reload_ratings numeric_students unrated_system = Inr numeric_students_system"
    by (simp add: reload_ratings_def rows pivot_def pivot_cell_def Let_def unrated_system_def
        numeric_students_system_def)
  have known: "known_ratings_file numeric_students_system = [(''123'', ''c1'', 9)]"
    by (simp add: numeric_students_system_def)
  have stored: "student_course_matrix_file numeric_students_system =
          Csv \<lparr> mat_index = [''007'', ''123''], mat_columns = [''c1''],
                mat_values = [[None], [Some 9]] \<rparr>"
    by (simp add: numeric_students_system_def)
  have read: "student_course_matrix numeric_students_system =
       Inr (Some \<lparr> scf_index = [Int_label 7, Int_label 123], scf_columns = [''c1''],
                   scf_values = [[None], [Some 9]] \<rparr>)"
    by (simp add: student_course_matrix_def stored typed_matrix_def infer_numeric_students)
  have "train_model (1 / 10) 40 (3 / 200) 20 tenth_draw tenth_draw numeric_students_system =
       Inl (KeyError ''123'')"
    by (rule train_model_first_rating_KeyError [OF stored _ _ known])
      (simp_all add: infer_numeric_students)
  with reload known read show ?thesis by simp
qed

subsection \<open>Course numbers made of digits\<close>

lemma infer_numeric_courses: "infer_index [''101'', ''20''] = [Int_label 101, Int_label 20]"
  by (simp add: infer_index_def integer_literal_def is_digit_def parse_int_def digit_value_def)

lemma infer_two_students:
  "infer_index [''nr1'', ''nr2''] = [Str_label ''nr1'', Str_label ''nr2'']"
  by (simp add: infer_index_def integer_literal_def is_digit_def)

text \<open>
  C8. Saving a factor matrix and loading it back does not preserve the mapping from codes to
  rows when the codes are made of digits. With courses 101 and 20, reloaded from the
  university, \<open>train_model\<close> builds \<open>Q\<close> with the string labels of the matrix columns and
  saves it; \<open>parameters\<close> reads it back with the integer labels 101 and 20, since no
  \<open>dtype\<close> is given. The row of course 101 is found in the matrix that was saved and is not
  found in the matrix that is loaded, and \<open>generate_recommendations\<close> for the student of
  course 101 raises \<open>KeyError\<close> on the course left to recommend.
\<close>

theorem parameters_numeric_course_numbers:
  "reload_ratings numeric_courses unrated_system = Inr numeric_courses_system
   \<and> train_model (1 / 10) 2 (3 / 200) 1 tenth_draw tenth_draw numeric_courses_system =
       Inr (numeric_courses_trained, [1 / 25, 1 / 25])
   \<and> model_parameters_file_Q numeric_courses_trained =
       Csv (to_csv [(Str_label ''101'', [sqrt 10 / 10]), (Str_label ''20'', [sqrt 10 / 10])])
   \<and> loc [(Str_label ''101'', [sqrt 10 / 10]), (Str_label ''20'', [sqrt 10 / 10])] ''101'' =
       Inr [sqrt 10 / 10]
   \<and> parameters numeric_courses_trained =
       Inr (Some ([(Int_label 101, [sqrt 10 / 10]), (Int_label 20, [sqrt 10 / 10])],
                  [(Str_label ''nr1'', [sqrt 10 / 10]), (Str_label ''nr2'', [sqrt 10 / 10])]))
   \<and> loc [(Int_label 101, [sqrt 10 / 10]), (Int_label 20, [sqrt 10 / 10])] ''101'' =
       Inl (KeyError ''101'')
   \<and> generate_recommendations sample_environment numeric_courses numeric_courses_trained
        one_course 3 = Inl (KeyError ''20'')"
proof -
  have rows: "collect_admissions numeric_courses =
                [(''nr1'', ''101'', None), (''nr2'', ''20'', None)]"
    by (simp add: collect_admissions_def numeric_courses_def)
  have reload: "reload_ratings numeric_courses unrated_system = Inr numeric_courses_system"
    by (simp add: reload_ratings_def rows pivot_def pivot_cell_def Let_def unrated_system_def
        numeric_courses_system_def)
  have h1: "student_course_matrix_file numeric_courses_system =
       Csv \<lparr> mat_index = [''nr1'', ''nr2''], mat_columns = [''101'', ''20''],
             mat_values = [[None, None], [None, None]] \<rparr>"
    by (simp add: numeric_courses_system_def)
  have h2: "(0 :: int) < 1" by simp
  have h3: "known_ratings_file numeric_courses_system = []"
    by (simp add: numeric_courses_system_def)
  have train: "train_model (1 / 10) 2 (3 / 200) 1 tenth_draw tenth_draw numeric_courses_system =
     Inr (numeric_courses_trained, [1 / 25, 1 / 25])"
    using train_model_no_ratings [OF h1 h2 h3, where reg = "1 / 10" and epochs = 2
        and lr = "3 / 200" and draw_Q = tenth_draw and draw_P = tenth_draw]
    by (simp add: random_frame_tenth_2 squared_norm_tenth infer_two_students
        to_csv_def numeral_2_eq_2 numeric_courses_system_def numeric_courses_trained_def)
  have saved: "model_parameters_file_Q numeric_courses_trained =
       Csv (to_csv [(Str_label ''101'', [sqrt 10 / 10]), (Str_label ''20'', [sqrt 10 / 10])])"
    by (simp add: numeric_courses_trained_def to_csv_def)
  have before: "loc [(Str_label ''101'', [sqrt 10 / 10]), (Str_label ''20'', [sqrt 10 / 10])] ''101'' =
       Inr [sqrt 10 / 10]"
    by (simp add: loc_def)
  have loaded: "parameters numeric_courses_trained =
       Inr (Some ([(Int_label 101, [sqrt 10 / 10]), (Int_label 20, [sqrt 10 / 10])],
                  [(Str_label ''nr1'', [sqrt 10 / 10]), (Str_label ''nr2'', [sqrt 10 / 10])]))"
    by (simp add: parameters_def numeric_courses_trained_def typed_frame_def
        infer_numeric_courses infer_two_students)
  have after: "loc [(Int_label 101, [sqrt 10 / 10]), (Int_label 20, [sqrt 10 / 10])] ''101'' =
       Inl (KeyError ''101'')"
    by (simp add: loc_def)
  have scm: "student_course_matrix numeric_courses_trained =
       Inr (Some \<lparr> scf_index = [Str_label ''nr1'', Str_label ''nr2''],
                   scf_columns = [''101'', ''20''],
                   scf_values = [[None, None], [None, None]] \<rparr>)"
    by (simp add: student_course_matrix_def numeric_courses_trained_def typed_matrix_def
        infer_two_students)
  have flag: "trained numeric_courses_trained"
    by (simp add: numeric_courses_trained_def)
  have "predicted_ratings numeric_courses_trained one_course 3 = Inl (KeyError ''20'')"
    by (simp add: predicted_ratings_def scm loaded flag one_course_def loc_def dot_def)
  then have gen: "generate_recommendations sample_environment numeric_courses
                    numeric_courses_trained one_course 3 = Inl (KeyError ''20'')"
    by (simp add: generate_recommendations_def)
  from reload train saved before loaded after gen show ?thesis by simp
qed

subsection \<open>Rating a recommendation\<close>

text \<open>
  C5, as the code has it. \<open>add_rating\<close> never looks at the rating the recommendation already
  carries: called with a member of \<open>Ratings\<close> it succeeds on every recommendation and stores
  a new rating with that value and today's date in place of whatever was there; the other
  fields stay as they were. Only a value that is not a member of \<open>Ratings\<close> makes it fail.
\<close>

theorem add_rating_replaces:
  "add_rating env (Ratings_value v) self =
     Inr (self \<lparr> rating := Some \<lparr> rr_rating = v, date_added = today env \<rparr> \<rparr>)
   \<and> add_rating env (Str_value s) self = Inl (AssertionError ''Please use a valid rating'')
   \<and> add_rating env None_value self = Inl (AssertionError ''Please use a valid rating'')"
  by (simp add: add_rating_def RecommendationRating_init_def)

text \<open>
  A recommendation rated HELPFUL on day 737851 is rated again, NOT_HELPFUL, a day later: the
  second call succeeds and the first rating is gone.
\<close>

theorem second_add_rating_counterexample:
  "add_rating \<lparr> today = 737852, date_generated_default = 737468 \<rparr> (Ratings_value NOT_HELPFUL)
     \<lparr> rec_student = ''nr1'', rec_course = None, correctness_probability = 7 / 20,
       date_generated = 737468,
       rating = Some \<lparr> rr_rating = HELPFUL, date_added = 737851 \<rparr> \<rparr>
   = Inr \<lparr> rec_student = ''nr1'', rec_course = None, correctness_probability = 7 / 20,
           date_generated = 737468,
           rating = Some \<lparr> rr_rating = NOT_HELPFUL, date_added = 737852 \<rparr> \<rparr>"
  by (simp add: add_rating_def RecommendationRating_init_def)

subsection \<open>The assertions of generate_recommendations\<close>

text \<open>
  C7. A number of recommendations outside 1..3 makes \<open>generate_recommendations\<close> fail on
  its first assertion, whatever the state of the model; with a number inside the range, a
  model that is not trained makes it fail on its second assertion. So every call on an
  untrained model fails with an \<open>AssertionError\<close>. A failed call returns the error and no
  recommendation.
\<close>

theorem generate_recommendations_asserts:
  "(\<not> (1 \<le> n \<and> n < 4) \<longrightarrow>
      generate_recommendations env uni self stud n =
        Inl (AssertionError ''The number of generated recommendations must be within [1, 3]''))
   \<and> (1 \<le> n \<and> n < 4 \<and> \<not> trained self \<longrightarrow>
      generate_recommendations env uni self stud n =
        Inl (AssertionError
              ''Please train the model at least once before generating a recommendation''))
   \<and> (\<not> (1 \<le> n \<and> n < 4) \<or> \<not> trained self \<longrightarrow>
      (\<exists>msg. generate_recommendations env uni self stud n = Inl (AssertionError msg)))"
  by (simp add: generate_recommendations_def predicted_ratings_def)

theorem generate_recommendations_asserts_witness:
  "\<not> (1 \<le> (4 :: int) \<and> (4 :: int) < 4)
   \<and> generate_recommendations sample_environment sample_university sample_system
        \<lparr> student_number = ''nr1'', enrollments = [''c1''] \<rparr> 4 =
        Inl (AssertionError ''The number of generated recommendations must be within [1, 3]'')
   \<and> \<not> trained (sample_system \<lparr> trained := False \<rparr>)
   \<and> generate_recommendations sample_environment sample_university
        (sample_system \<lparr> trained := False \<rparr>)
        \<lparr> student_number = ''nr1'', enrollments = [''c1''] \<rparr> 3 =
        Inl (AssertionError
              ''Please train the model at least once before generating a recommendation'')"
  using generate_recommendations_asserts [of 4 sample_environment sample_university sample_system
      "\<lparr> student_number = ''nr1'', enrollments = [''c1''] \<rparr>"]
    generate_recommendations_asserts [of 3 sample_environment sample_university
      "sample_system \<lparr> trained := False \<rparr>" "\<lparr> student_number = ''nr1'', enrollments = [''c1''] \<rparr>"]
  by simp

subsection \<open>A student without a row in P\<close>

lemma length_infer_index: "length (infer_index labels) = length labels"
  by (simp add: infer_index_def)

lemma keys_typed_frame: "map fst (typed_frame t) = infer_index (map fst t)"
  by (simp add: typed_frame_def length_infer_index)

lemma infer_index_Str: "Str_label s \<in> set (infer_index labels) \<Longrightarrow> s \<in> set labels"
  by (auto simp: infer_index_def split: if_splits)

lemma typed_frame_Str: "Str_label s \<in> fst ` set (typed_frame t) \<Longrightarrow> s \<in> fst ` set t"
proof -
  assume "Str_label s \<in> fst ` set (typed_frame t)"
  then have "Str_label s \<in> set (map fst (typed_frame t))" by simp
  then have "Str_label s \<in> set (infer_index (map fst t))" by (simp only: keys_typed_frame)
  then have "s \<in> set (map fst t)" by (rule infer_index_Str)
  then show ?thesis by simp
qed

text \<open>The lookup that decides: the student number among the labels of \<open>P\<close> as read back.\<close>

lemma generate_recommendations_no_row:
  assumes "1 \<le> n" and "n < 4" and "trained self"
    and "student_course_matrix_file self = Csv scm"
    and "model_parameters_file_Q self = Csv Q"
    and "model_parameters_file_P self = Csv P"
    and "Str_label (student_number stud) \<notin> fst ` set (typed_frame P)"
  shows "generate_recommendations env uni self stud n = Inl (KeyError (student_number stud))"
proof -
  have "loc (typed_frame P) (student_number stud) = Inl (KeyError (student_number stud))"
    using assms(7) by (simp add: loc_Inl_iff)
  then show ?thesis
    using assms(1-6)
    by (simp add: generate_recommendations_def predicted_ratings_def student_course_matrix_def
        parameters_def Let_def)
qed

text \<open>
  C10. On a trained model whose files are in place, a call with a number of recommendations
  in 1..3 for a student whose number is not a row label of \<open>P\<close> raises \<open>KeyError\<close> on that
  number and returns no recommendations.
\<close>

theorem generate_recommendations_KeyError:
  assumes "1 \<le> n" and "n < 4" and "trained self"
    and "student_course_matrix_file self = Csv scm"
    and "model_parameters_file_Q self = Csv Q"
    and "model_parameters_file_P self = Csv P"
    and "student_number stud \<notin> fst ` set P"
  shows "generate_recommendations env uni self stud n = Inl (KeyError (student_number stud))"
proof -
  from assms(7) have "Str_label (student_number stud) \<notin> fst ` set (typed_frame P)"
    using typed_frame_Str by blast
  with assms(1-6) show ?thesis by (rule generate_recommendations_no_row)
qed

theorem generate_recommendations_KeyError_witness:
  "(1 :: int) \<le> 2 \<and> (2 :: int) < 4 \<and> trained sample_system
   \<and> student_course_matrix_file sample_system =
       Csv \<lparr> mat_index = [''nr1''], mat_columns = [''c1'', ''c2''], mat_values = [[Some 9, None]] \<rparr>
   \<and> model_parameters_file_Q sample_system = Csv [(''c1'', [1, 2]), (''c2'', [3, 1])]
   \<and> model_parameters_file_P sample_system = Csv [(''nr1'', [2, 1])]
   \<and> student_number \<lparr> student_number = ''nr3'', enrollments = [] \<rparr> \<notin> fst ` set [(''nr1'', [2, 1 :: real])]
   \<and> generate_recommendations sample_environment sample_university sample_system
        \<lparr> student_number = ''nr3'', enrollments = [] \<rparr> 2 = Inl (KeyError ''nr3'')"
  using generate_recommendations_KeyError [of 2 sample_system
      "\<lparr> mat_index = [''nr1''], mat_columns = [''c1'', ''c2''], mat_values = [[Some 9, None]] \<rparr>"
      "[(''c1'', [1, 2]), (''c2'', [3, 1])]" "[(''nr1'', [2, 1])]"
      "\<lparr> student_number = ''nr3'', enrollments = [] \<rparr>" sample_environment sample_university]
  by (simp add: sample_system_def)

subsection \<open>What generate_recommendations returns\<close>






lemma typed_sample_P: "typed_frame [(''nr1'', [2, 1])] = [(Str_label ''nr1'', [2, 1])]"
  by (simp add: typed_frame_def infer_sample_index)

lemma infer_sample_courses: "infer_index [''c1'', ''c2''] = [Str_label ''c1'', Str_label ''c2'']"
  by (simp add: infer_index_def integer_literal_def is_digit_def)

lemma typed_sample_Q:
  "typed_frame [(''c1'', [1, 2]), (''c2'', [3, 1])] =
     [(Str_label ''c1'', [1, 2]), (Str_label ''c2'', [3, 1])]"
  by (simp add: typed_frame_def infer_sample_courses)

lemma sample_first_student:
  "generate_recommendations sample_environment sample_university sample_system first_student 3 =
     Inr [\<lparr> rec_student = ''nr1'',
            rec_course = Some \<lparr> course_number = ''c2'', admissions = [] \<rparr>,
            correctness_probability = 7 / 20,
            date_generated = 737468,
            rating = None \<rparr>]"
  by (simp add: generate_recommendations_def predicted_ratings_def student_course_matrix_def
      parameters_def typed_matrix_def sample_system_def first_student_def typed_sample_P
      typed_sample_Q loc_def dot_def sort_values_descending_def Recommendation_init_def
      find_course_def sample_university_def sample_environment_def)



text \<open>Every recommendation carries the default date, no rating, and the score over 20.\<close>

lemma generate_recommendations_fields:
  assumes "generate_recommendations env uni self stud n = Inr recs" and "rc \<in> set recs"
  shows "date_generated rc = date_generated_default env \<and> rating rc = None
         \<and> rec_student rc = student_number stud
         \<and> (\<exists>ratings number r. predicted_ratings self stud n = Inr ratings
               \<and> (number, r) \<in> set ratings
               \<and> rec_course rc = find_course uni number
               \<and> correctness_probability rc = r / 20)"
proof -
  from assms(1) obtain ratings where pr: "predicted_ratings self stud n = Inr ratings"
    and recs: "recs = map (\<lambda>(number, r). Recommendation_init env (student_number stud)
                         (find_course uni number) (Some (r / 20)) None) ratings"
    by (auto simp: generate_recommendations_def split: sum.splits)
  from assms(2) obtain number r where mem: "(number, r) \<in> set ratings"
    and rc: "rc = Recommendation_init env (student_number stud)
                         (find_course uni number) (Some (r / 20)) None"
    unfolding recs by auto
  from rc have "date_generated rc = date_generated_default env" "rating rc = None"
    "rec_student rc = student_number stud" "rec_course rc = find_course uni number"
    "correctness_probability rc = r / 20"
    by (simp_all add: Recommendation_init_def)
  with pr mem show ?thesis by blast
qed

text \<open>
  C9. The recommendations carry the predicted rating divided by 20 and no rating of their
  own, but their date is the default of \<open>Recommendation.__init__\<close>, fixed when the module was
  imported: with the module imported on day 737468 and the call made on day 737850, the
  recommendation is dated 737468.
\<close>

theorem date_generated_is_import_date:
  "today sample_environment = 737850
   \<and> generate_recommendations sample_environment sample_university sample_system first_student 3 =
       Inr [\<lparr> rec_student = ''nr1'',
              rec_course = Some \<lparr> course_number = ''c2'', admissions = [] \<rparr>,
              correctness_probability = 7 / 20,
              date_generated = 737468,
              rating = None \<rparr>]"
proof -
  have "today sample_environment = 737850"
    by (simp add: sample_environment_def)
  then show ?thesis
    using sample_first_student by (rule conjI)
qed

end
